theory Spec2Isabelle
  imports Complex_Main
begin

section \<open>Data model\<close>

text \<open>
  The program is \<^verbatim>\<open>src/main.py\<close>: the class \<^verbatim>\<open>EditeurPDF\<close> (a list of pending
  annotations and the method \<^verbatim>\<open>generer\<close> that paints them onto the pages of a PDF) and
  the function \<^verbatim>\<open>signer_pdf_region\<close>.

  Conventions of the embedding.
  \<^item> Python numbers (\<^verbatim>\<open>int\<close> and \<^verbatim>\<open>float\<close> coordinates, sizes, angles) are exact
    reals: the rounding of binary floating point is not modelled.
  \<^item> A Python \<^verbatim>\<open>str\<close> is a \<^typ>\<open>string\<close>; a character outside ASCII stands as its
    UTF-8 bytes.
  \<^item> The page index of an annotation is a Python \<^verbatim>\<open>int\<close>, hence an \<^typ>\<open>int\<close>.
  \<^item> \<^verbatim>\<open>None\<close> for an optional width or height is \<^term>\<open>None\<close>.
\<close>

text \<open>
  An annotation is the dictionary that \<^verbatim>\<open>ajouter_texte\<close> (lines 63-74) or
  \<^verbatim>\<open>ajouter_image\<close> (lines 111-122) appends; the key \<^verbatim>\<open>'type'\<close> is the constructor and
  every other key is a selector.
\<close>

datatype element =
  Elem_texte
    (elem_texte: string) (elem_x: real) (elem_y: real) (elem_page: int)
    (elem_taille_police: real) (elem_police: string) (elem_couleur: string)
    (elem_rotation: real) (elem_opacite: real)
| Elem_image
    (elem_chemin_image: string) (elem_x: real) (elem_y: real) (elem_page: int)
    (elem_largeur: "real option") (elem_hauteur: "real option") (elem_conserver_ratio: bool)
    (elem_rotation: real) (elem_opacite: real)

text \<open>The instance attributes set by \<^verbatim>\<open>__init__\<close> (lines 26-27).\<close>

record editeur =
  fichier_pdf_entree :: string
  elements :: "element list"

definition EditeurPDF_init :: "string \<Rightarrow> editeur" where
  "EditeurPDF_init f = \<lparr>fichier_pdf_entree = f, elements = []\<rparr>"

subsection \<open>The collaborators: canvas, pages, files\<close>

text \<open>
  The reportlab canvas is the sequence of calls made on it. A colour is the value that
  \<^verbatim>\<open>HexColor\<close> returns, kept abstract as a number.
\<close>

type_synonym color = nat

datatype canvas_op =
  SaveState
| RestoreState
| SetFont string real
| SetFillColor color
| SetFillAlpha real
| SetStrokeAlpha real
| Translate real real
| Rotate real
| DrawString real real string
| DrawImage string real real real real bool string

text \<open>
  \<^verbatim>\<open>canvas.Canvas(packet, pagesize=(largeur, hauteur))\<close> followed by the calls and
  \<^verbatim>\<open>can.save()\<close> gives a one-page document: the overlay.
\<close>

record overlay =
  pagesize :: "real \<times> real"
  ops :: "canvas_op list"

text \<open>
  A page of the source document: its media box, its original content (opaque) and the
  overlays that \<^verbatim>\<open>merge_page\<close> has put on it, oldest first.
\<close>

record page =
  mediabox_width :: real
  mediabox_height :: real
  page_content :: string
  merged :: "overlay list"

definition merge_page :: "page \<Rightarrow> overlay \<Rightarrow> page" where
  "merge_page p ov = p\<lparr>merged := merged p @ [ov]\<rparr>"

datatype fs_file = PdfFile "page list" | ImageFile nat nat | OtherFile

text \<open>What \<^verbatim>\<open>print\<close> writes, one value per call, carrying the interpolated values.\<close>

datatype message =
  Texte_ajoute string int real real
| Image_ajoutee string int real real
| Pdf_genere string
| Total_elements nat
| Elements_supprimes

datatype error =
  SourceDocumentUnreadable string
| ImageResourceUnreadable string
| FontUnresolvable string
| ColorParseError string
| ZeroDivisionError
| ValueError string
| OutputWriteFailure string
| AttributeError string

type_synonym ref = nat

text \<open>
  The world a call runs in: the objects (every reference denotes an editor, as Python
  has no dangling reference), the file system, which paths can be opened for writing,
  the fonts the canvas knows, the \<^verbatim>\<open>HexColor\<close> parser, the text that
  \<^verbatim>\<open>datetime.now().strftime('%d/%m/%Y')\<close> returns, and the standard output.
\<close>

record world =
  heap :: "ref \<Rightarrow> editeur"
  files :: "string \<rightharpoonup> fs_file"
  writable :: "string \<Rightarrow> bool"
  fonts :: "string \<Rightarrow> bool"
  HexColor :: "string \<rightharpoonup> color"
  date_du_jour :: string
  stdout :: "message list"

definition PdfReader :: "world \<Rightarrow> string \<Rightarrow> error + page list" where
  "PdfReader w path =
     (case files w path of
        Some (PdfFile pages) \<Rightarrow> Inr pages
      | _ \<Rightarrow> Inl (SourceDocumentUnreadable path))"

text \<open>\<^verbatim>\<open>Image.open(path).size\<close>: the natural size in pixels.\<close>

definition Image_open_size :: "world \<Rightarrow> string \<Rightarrow> error + nat \<times> nat" where
  "Image_open_size w path =
     (case files w path of
        Some (ImageFile img_largeur img_hauteur) \<Rightarrow> Inr (img_largeur, img_hauteur)
      | _ \<Rightarrow> Inl (ImageResourceUnreadable path))"

section \<open>The descriptor store\<close>

definition ajouter_texte ::
  "world \<Rightarrow> ref \<Rightarrow> string \<Rightarrow> real \<Rightarrow> real \<Rightarrow> int \<Rightarrow> real \<Rightarrow> string \<Rightarrow> string \<Rightarrow> real \<Rightarrow> real \<Rightarrow> world"
where
  "ajouter_texte w self texte x y page taille_police police couleur rotation opacite =
     (let ed = heap w self;
          ed' = ed\<lparr>elements := elements ed @
                  [Elem_texte texte x y page taille_police police couleur rotation opacite]\<rparr>
      in w\<lparr>heap := (heap w)(self := ed'),
           stdout := stdout w @ [Texte_ajoute texte page x y]\<rparr>)"

definition ajouter_image ::
  "world \<Rightarrow> ref \<Rightarrow> string \<Rightarrow> real \<Rightarrow> real \<Rightarrow> int \<Rightarrow> real option \<Rightarrow> real option \<Rightarrow> bool \<Rightarrow> real \<Rightarrow> real \<Rightarrow> world"
where
  "ajouter_image w self chemin_image x y page largeur hauteur conserver_ratio rotation opacite =
     (let ed = heap w self;
          ed' = ed\<lparr>elements := elements ed @
                  [Elem_image chemin_image x y page largeur hauteur conserver_ratio rotation opacite]\<rparr>
      in w\<lparr>heap := (heap w)(self := ed'),
           stdout := stdout w @ [Image_ajoutee chemin_image page x y]\<rparr>)"

definition reinitialiser :: "world \<Rightarrow> ref \<Rightarrow> world" where
  "reinitialiser w self =
     w\<lparr>heap := (heap w)(self := (heap w self)\<lparr>elements := []\<rparr>),
       stdout := stdout w @ [Elements_supprimes]\<rparr>"

text \<open>
  The names an \<^verbatim>\<open>EditeurPDF\<close> instance answers to: the five methods of the class body
  (lines 17, 29, 77, 126, 277) and the two attributes set by \<^verbatim>\<open>__init__\<close>. Any other
  name raises \<^verbatim>\<open>AttributeError\<close>.
\<close>

definition EditeurPDF_attributs :: "string list" where
  "EditeurPDF_attributs =
     [''__init__'', ''ajouter_texte'', ''ajouter_image'', ''generer'', ''reinitialiser'',
      ''fichier_pdf_entree'', ''elements'']"

definition EditeurPDF_getattr :: "string \<Rightarrow> error + string" where
  "EditeurPDF_getattr name =
     (if name \<in> set EditeurPDF_attributs then Inr name else Inl (AttributeError name))"

section \<open>The compositor: \<^verbatim>\<open>generer\<close>\<close>

subsection \<open>Grouping by page (lines 140-145)\<close>

definition ranger :: "(int \<rightharpoonup> element list) \<Rightarrow> element \<Rightarrow> (int \<rightharpoonup> element list)" where
  "ranger elements_par_page elem =
     (let page = elem_page elem;
          epp = (if elements_par_page page = None
                 then elements_par_page(page \<mapsto> [])
                 else elements_par_page)
      in epp(page \<mapsto> the (epp page) @ [elem]))"

definition elements_par_page :: "element list \<Rightarrow> (int \<rightharpoonup> element list)" where
  "elements_par_page es = foldl ranger Map.empty es"

subsection \<open>Painting one annotation (lines 163-259)\<close>

text \<open>\<^verbatim>\<open>s.split(sep)\<close> for a one-character separator: never empty, keeps empty pieces.\<close>

fun split_on :: "char \<Rightarrow> string \<Rightarrow> string list" where
  "split_on sep [] = [[]]"
| "split_on sep (c # s) =
     (if c = sep then [] # split_on sep s
      else (let r = split_on sep s in (c # hd r) # tl r))"

definition newline :: char where
  "newline = CHR 0x0A"

text \<open>
  Lines 202-227: the final width and height from the natural size of the image. The
  divisions are Python's true division, which raises on a zero divisor.
\<close>

definition dimensions_finales ::
  "nat \<times> nat \<Rightarrow> real option \<Rightarrow> real option \<Rightarrow> bool \<Rightarrow> error + real \<times> real"
where
  "dimensions_finales img_size largeur hauteur conserver_ratio =
     (let img_largeur = fst img_size; img_hauteur = snd img_size in
      case (largeur, hauteur) of
        (None, None) \<Rightarrow> Inr (real img_largeur, real img_hauteur)
      | (Some l, None) \<Rightarrow>
          (if conserver_ratio then
             (if img_largeur = 0 then Inl ZeroDivisionError
              else Inr (l, l * (real img_hauteur / real img_largeur)))
           else Inr (l, real img_hauteur))
      | (None, Some h) \<Rightarrow>
          (if conserver_ratio then
             (if img_hauteur = 0 then Inl ZeroDivisionError
              else Inr (h * (real img_largeur / real img_hauteur), h))
           else Inr (real img_largeur, h))
      | (Some l, Some h) \<Rightarrow> Inr (l, h))"

text \<open>
  One pass of the loop body of line 162 on the canvas \<open>can\<close> (the calls made so far). An
  exception of a collaborator leaves the function at once: \<^verbatim>\<open>setFont\<close> raises on a font
  the canvas does not know, \<^verbatim>\<open>HexColor\<close> on a string it cannot parse,
  \<^verbatim>\<open>setFillAlpha\<close> and \<^verbatim>\<open>setStrokeAlpha\<close> raise \<^verbatim>\<open>ValueError\<close> on a value outside
  \<open>[0, 1]\<close>, \<^verbatim>\<open>Image.open\<close> on a file that is not an image, and the division on a zero
  divisor. The other calls (\<^verbatim>\<open>saveState\<close>, \<^verbatim>\<open>setFillColor\<close>, \<^verbatim>\<open>translate\<close>,
  \<^verbatim>\<open>rotate\<close>, \<^verbatim>\<open>drawString\<close>, \<^verbatim>\<open>drawImage\<close> of an image that was opened,
  \<^verbatim>\<open>restoreState\<close>) are taken to succeed.
\<close>

fun dessiner_element :: "world \<Rightarrow> element \<Rightarrow> canvas_op list \<Rightarrow> error + canvas_op list" where
  "dessiner_element w (Elem_texte texte x y page taille_police police couleur rotation opacite) can =
     (let can = can @ [SaveState] in
      if \<not> fonts w police then Inl (FontUnresolvable police)
      else
        let can = can @ [SetFont police taille_police] in
        case HexColor w couleur of
          None \<Rightarrow> Inl (ColorParseError couleur)
        | Some c \<Rightarrow>
            let can = can @ [SetFillColor c] in
            if \<not> (0 \<le> opacite \<and> opacite \<le> 1) then Inl (ValueError ''setFillAlpha'')
            else
              let can = can @ [SetFillAlpha opacite];
                  lignes = split_on newline texte;
                  can =
                    (if rotation \<noteq> 0 then
                       can @ [Translate x y] @ [Rotate rotation] @
                         map (\<lambda>(i, ligne). DrawString 0 (- real i * taille_police * 1.2) ligne)
                           (enumerate 0 lignes)
                     else
                       can @
                         map (\<lambda>(i, ligne). DrawString x (y - real i * taille_police * 1.2) ligne)
                           (enumerate 0 lignes))
              in Inr (can @ [RestoreState]))"
| "dessiner_element w (Elem_image chemin_image x y page largeur hauteur conserver_ratio rotation opacite) can =
     (let can = can @ [SaveState] in
      case Image_open_size w chemin_image of
        Inl e \<Rightarrow> Inl e
      | Inr img_size \<Rightarrow>
          (case dimensions_finales img_size largeur hauteur conserver_ratio of
             Inl e \<Rightarrow> Inl e
           | Inr (largeur_finale, hauteur_finale) \<Rightarrow>
               if \<not> (0 \<le> opacite \<and> opacite \<le> 1) then Inl (ValueError ''setFillAlpha'')
               else
                 let can = can @ [SetFillAlpha opacite] in
                 if \<not> (0 \<le> opacite \<and> opacite \<le> 1) then Inl (ValueError ''setStrokeAlpha'')
                 else
                   let can = can @ [SetStrokeAlpha opacite];
                       can =
                         (if rotation \<noteq> 0 then
                            can @ [Translate x y] @ [Rotate rotation] @
                              [DrawImage chemin_image 0 0 largeur_finale hauteur_finale
                                 conserver_ratio ''auto'']
                          else
                            can @
                              [DrawImage chemin_image x y largeur_finale hauteur_finale
                                 conserver_ratio ''auto''])
                   in Inr (can @ [RestoreState])))"

text \<open>The loop of line 162 over the annotations of one page.\<close>

fun dessiner_elements :: "world \<Rightarrow> element list \<Rightarrow> canvas_op list \<Rightarrow> error + canvas_op list" where
  "dessiner_elements w [] can = Inr can"
| "dessiner_elements w (elem # elems) can =
     (case dessiner_element w elem can of
        Inl e \<Rightarrow> Inl e
      | Inr can' \<Rightarrow> dessiner_elements w elems can')"

subsection \<open>One page, all pages, the output file\<close>

text \<open>The body of the loop of line 148 for page number \<open>num_page\<close>.\<close>

definition traiter_page ::
  "world \<Rightarrow> (int \<rightharpoonup> element list) \<Rightarrow> nat \<Rightarrow> page \<Rightarrow> error + page"
where
  "traiter_page w epp num_page page_existante =
     (case epp (int num_page) of
        None \<Rightarrow> Inr page_existante
      | Some elems \<Rightarrow>
          let largeur = mediabox_width page_existante;
              hauteur = mediabox_height page_existante
          in (case dessiner_elements w elems [] of
                Inl e \<Rightarrow> Inl e
              | Inr can \<Rightarrow>
                  Inr (merge_page page_existante
                         \<lparr>pagesize = (largeur, hauteur), ops = can\<rparr>)))"

text \<open>
  The loop of line 148: \<open>sortie\<close> is the list of pages that \<^verbatim>\<open>sortie.add_page\<close> has
  received so far.
\<close>

fun traiter_pages ::
  "world \<Rightarrow> (int \<rightharpoonup> element list) \<Rightarrow> nat \<Rightarrow> page list \<Rightarrow> page list \<Rightarrow> error + page list"
where
  "traiter_pages w epp num_page [] sortie = Inr sortie"
| "traiter_pages w epp num_page (page_existante # pages) sortie =
     (case traiter_page w epp num_page page_existante of
        Inl e \<Rightarrow> Inl e
      | Inr p \<Rightarrow> traiter_pages w epp (Suc num_page) pages (sortie @ [p]))"

text \<open>
  \<^verbatim>\<open>generer\<close> (lines 126-275). An exception leaves the world as it was: the output
  file is opened at line 271, after the loop. Opening it can fail; writing the pages to
  the opened file is taken to succeed.
\<close>

definition generer :: "world \<Rightarrow> ref \<Rightarrow> string \<Rightarrow> world \<times> (error + unit)" where
  "generer w self fichier_pdf_sortie =
     (let ed = heap w self in
      case PdfReader w (fichier_pdf_entree ed) of
        Inl e \<Rightarrow> (w, Inl e)
      | Inr pages \<Rightarrow>
          (case traiter_pages w (elements_par_page (elements ed)) 0 pages [] of
             Inl e \<Rightarrow> (w, Inl e)
           | Inr sortie \<Rightarrow>
               if \<not> writable w fichier_pdf_sortie
               then (w, Inl (OutputWriteFailure fichier_pdf_sortie))
               else
                 (w\<lparr>files := (files w)(fichier_pdf_sortie \<mapsto> PdfFile sortie),
                    stdout := stdout w @
                      [Pdf_genere fichier_pdf_sortie, Total_elements (length (elements ed))]\<rparr>,
                  Inr ())))"

section \<open>The signature block: \<^verbatim>\<open>signer_pdf_region\<close>\<close>

definition texte_lorem :: string where
  "texte_lorem =
     ''Lorem ipsum dolor sit amet, consectetur adipiscing elit. '' @ [newline] @
     ''Pellentesque fermentum aliquam urna eu bibendum. '' @ [newline] @
     ''Morbi sit amet blandit purus.''"

definition texte_signataire :: "string \<Rightarrow> string" where
  "texte_signataire date =
     ''M. John Doe'' @ [newline] @ ''Certified Adobe'' @ [newline] @
     ''Sign'' @ [CHR 0xC3, CHR 0xA9] @ '' le '' @ date"

text \<open>
  Lines 283-350. The arguments \<open>largeur\<close> and \<open>hauteur\<close> are parameters of the source
  function too. The defaults of \<^verbatim>\<open>ajouter_image\<close> and \<^verbatim>\<open>ajouter_texte\<close> that the calls
  leave out (rotation 0, opacity 1) are written out.
\<close>

definition signer_pdf_region ::
  "world \<Rightarrow> ref \<Rightarrow> real \<Rightarrow> real \<Rightarrow> int \<Rightarrow> real option \<Rightarrow> real option \<Rightarrow> bool \<Rightarrow> string \<Rightarrow> world \<times> ref"
where
  "signer_pdf_region w editeur_pdf x y page largeur hauteur conserver_ratio chemin_logo_adobe =
     (let x_adobe = x + 135;
          y_adobe = y - 35;
          w = ajouter_image w editeur_pdf chemin_logo_adobe x_adobe y_adobe page
                (Some 70) (Some 70) conserver_ratio 0 1;
          w = ajouter_texte w editeur_pdf texte_lorem x y page 6 ''Helvetica-Bold'' ''#000000'' 0 1;
          x_signature = x_adobe + 35;
          y_signature = y + 5;
          w = ajouter_texte w editeur_pdf (texte_signataire (date_du_jour w))
                x_signature y_signature page 8 ''Helvetica-Bold'' ''#000000'' 0 1
      in (w, editeur_pdf))"

section \<open>Auxiliary notions for the statements\<close>

text \<open>
  \<^verbatim>\<open>sep.join(pieces)\<close>, the inverse of \<^verbatim>\<open>split\<close>; it is used only to check that
  \<^const>\<open>split_on\<close> is Python's \<^verbatim>\<open>split\<close>.
\<close>

fun py_join :: "char \<Rightarrow> string list \<Rightarrow> string" where
  "py_join sep [] = []"
| "py_join sep [l] = l"
| "py_join sep (l # ls) = l @ sep # py_join sep ls"

text \<open>The image paths that painting a list of annotations opens.\<close>

fun images_lues :: "element list \<Rightarrow> string list" where
  "images_lues [] = []"
| "images_lues (Elem_texte texte x y page taille_police police couleur rotation opacite # es) =
     images_lues es"
| "images_lues (Elem_image chemin_image x y page largeur hauteur conserver_ratio rotation opacite # es) =
     chemin_image # images_lues es"

text \<open>The annotations whose page index is the number of a page of a document of \<open>n\<close> pages.\<close>

definition elements_sur_page_existante :: "nat \<Rightarrow> element list \<Rightarrow> element list" where
  "elements_sur_page_existante n es = filter (\<lambda>e. 0 \<le> elem_page e \<and> elem_page e < int n) es"

text \<open>The world \<open>w\<close> with the list of pending annotations of the editor \<open>self\<close> replaced.\<close>

definition avec_elements :: "world \<Rightarrow> ref \<Rightarrow> element list \<Rightarrow> world" where
  "avec_elements w self es = w\<lparr>heap := (heap w)(self := (heap w self)\<lparr>elements := es\<rparr>)\<rparr>"

subsection \<open>A concrete world\<close>

text \<open>
  The setting of the example at the end of the source: an editor on \<^verbatim>\<open>document.pdf\<close>,
  here a document of one blank page of A4 size, and the logo at its default path, of
  natural size 200 by 100 pixels.
\<close>

definition page_A4 :: page where
  "page_A4 = \<lparr>mediabox_width = 595.28, mediabox_height = 841.89, page_content = ''blank'',
     merged = []\<rparr>"

definition monde_exemple :: world where
  "monde_exemple =
     \<lparr>heap = (\<lambda>_. EditeurPDF_init ''document.pdf''),
      files = [''document.pdf'' \<mapsto> PdfFile [page_A4],
               ''resources/adobe_logo.png'' \<mapsto> ImageFile 200 100],
      writable = (\<lambda>_. True),
      fonts = (\<lambda>f. f \<in> set [''Helvetica'', ''Helvetica-Bold'']),
      HexColor = [''#000000'' \<mapsto> 0],
      date_du_jour = ''04/11/2026'',
      stdout = []\<rparr>"

text \<open>The text of the two-line scenario, and the world where it has been queued.\<close>

definition texte_hello :: string where
  "texte_hello = ''Hello'' @ [newline] @ ''World''"

definition monde_hello :: world where
  "monde_hello =
     ajouter_texte monde_exemple 0 texte_hello 10 700 0 10 ''Helvetica'' ''#000000'' 0 1"

text \<open>
  The two-line scenario with two more annotations on pages the document does not have
  (page 5 with an unknown font, page -1 with a missing image); a world whose only
  annotations are on such pages; the scenario followed by an image, on page 0, that
  cannot be read; and the world after the call of \<^verbatim>\<open>signer_pdf_region\<close> of the example.
\<close>

definition monde_hors_page :: world where
  "monde_hors_page =
     ajouter_image
       (ajouter_texte monde_hello 0 ''x'' 10 10 5 12 ''Comic'' ''#000000'' 0 1)
       0 ''missing.png'' 0 0 (- 1) None None True 0 1"

definition monde_tout_hors_page :: world where
  "monde_tout_hors_page =
     ajouter_image
       (ajouter_texte monde_exemple 0 ''x'' 10 10 1 12 ''Comic'' ''#000000'' 0 1)
       0 ''missing.png'' 0 0 (- 1) None None True 0 1"

definition monde_echec :: world where
  "monde_echec = ajouter_image monde_hello 0 ''missing.png'' 0 0 0 None None True 0 1"

definition monde_signe :: world where
  "monde_signe =
     fst (signer_pdf_region monde_exemple 0 50 150 0 (Some 150) (Some 50) True
            ''resources/adobe_logo.png'')"

text \<open>
  The two-line text queued with a rotation of 45 degrees, and the logo queued with only
  its width set.
\<close>

definition monde_rotation :: world where
  "monde_rotation =
     ajouter_texte monde_exemple 0 texte_hello 10 700 0 10 ''Helvetica'' ''#000000'' 45 1"

definition monde_image :: world where
  "monde_image =
     ajouter_image monde_exemple 0 ''resources/adobe_logo.png'' 185 115 0 (Some 70) None True 0 1"

text \<open>The calls that rotate the frame.\<close>

fun est_rotation :: "canvas_op \<Rightarrow> bool" where
  "est_rotation (Rotate a) = True"
| "est_rotation _ = False"

section \<open>Lemmas\<close>

subsection \<open>Splitting into lines\<close>

lemma split_on_not_Nil: "split_on sep s \<noteq> []"
  by (induction s) (auto simp: Let_def)

lemma length_split_on: "length (split_on sep s) = Suc (count_list s sep)"
  by (induction s) (auto simp: Let_def split_on_not_Nil)

lemma split_on_no_sep: "l \<in> set (split_on sep s) \<Longrightarrow> sep \<notin> set l"
proof (induction s arbitrary: l)
  case Nil
  then show ?case by simp
next
  case (Cons c s)
  show ?case
  proof (cases "c = sep")
    case True
    with Cons show ?thesis by auto
  next
    case False
    obtain r rs where r: "split_on sep s = r # rs"
      using split_on_not_Nil [of sep s] by (cases "split_on sep s") auto
    with Cons False show ?thesis by (auto simp: Let_def)
  qed
qed

lemma py_join_split_on: "py_join sep (split_on sep s) = s"
proof (induction s)
  case Nil
  show ?case by simp
next
  case (Cons c s)
  obtain r rs where r: "split_on sep s = r # rs"
    using split_on_not_Nil [of sep s] by (cases "split_on sep s") auto
  show ?case
  proof (cases "c = sep")
    case True
    with Cons r show ?thesis by simp
  next
    case False
    with Cons r show ?thesis by (cases rs) (auto simp: Let_def)
  qed
qed

lemma map_enumerate_nth:
  "map (\<lambda>(i, l). f i l) (enumerate n xs) = map (\<lambda>k. f (n + k) (xs ! k)) [0..<length xs]"
  by (rule nth_equalityI) (auto simp: nth_enumerate_eq)

subsection \<open>Grouping by page\<close>

lemma ranger_other: "p \<noteq> elem_page e \<Longrightarrow> ranger m e p = m p"
  by (simp add: ranger_def Let_def)

lemma ranger_same:
  "ranger m e (elem_page e) = Some ((case m (elem_page e) of None \<Rightarrow> [] | Some l \<Rightarrow> l) @ [e])"
  by (simp add: ranger_def Let_def split: option.splits)

lemma foldl_ranger:
  "foldl ranger m es p =
     (if filter (\<lambda>e. elem_page e = p) es = [] then m p
      else Some ((case m p of None \<Rightarrow> [] | Some l \<Rightarrow> l) @ filter (\<lambda>e. elem_page e = p) es))"
proof (induction es arbitrary: m)
  case Nil
  show ?case by simp
next
  case (Cons e es)
  show ?case
  proof (cases "elem_page e = p")
    case True
    then show ?thesis
      using ranger_same [of m e] by (simp add: Cons.IH)
  next
    case False
    then have "ranger m e p = m p"
      using ranger_other [of p e m] by simp
    with False show ?thesis by (simp add: Cons.IH)
  qed
qed

text \<open>The group of a page is the annotations of that page, in registration order.\<close>

lemma elements_par_page_eq:
  "elements_par_page es p =
     (if filter (\<lambda>e. elem_page e = p) es = [] then None
      else Some (filter (\<lambda>e. elem_page e = p) es))"
  by (simp add: elements_par_page_def foldl_ranger)

lemma elements_par_page_mem:
  "e \<in> set es \<Longrightarrow> \<exists>elems. elements_par_page es (elem_page e) = Some elems \<and> e \<in> set elems"
  by (auto simp: elements_par_page_eq filter_empty_conv)

subsection \<open>Painting\<close>

text \<open>The calls already made on the canvas are kept and have no influence.\<close>

lemma dessiner_element_prefix:
  "dessiner_element w e can =
     (case dessiner_element w e [] of Inl err \<Rightarrow> Inl err | Inr dessin \<Rightarrow> Inr (can @ dessin))"
  by (cases e) (auto simp: Let_def split: option.splits sum.splits prod.splits)

lemma dessiner_elements_echec:
  "e \<in> set es \<Longrightarrow> dessiner_element w e [] = Inl err \<Longrightarrow>
   \<exists>err'. dessiner_elements w es can = Inl err'"
proof (induction es arbitrary: can)
  case Nil
  then show ?case by simp
next
  case (Cons a es)
  show ?case
  proof (cases "dessiner_element w a can")
    case (Inl x)
    then show ?thesis by simp
  next
    case (Inr can')
    with Cons.prems have "e \<in> set es"
      using dessiner_element_prefix [of w a can] by auto
    from Cons.IH [OF this Cons.prems(2)] Inr show ?thesis by simp
  qed
qed

subsection \<open>The loop over the pages\<close>

lemma traiter_pages_echec:
  "k < length pages \<Longrightarrow> traiter_page w epp (n + k) (pages ! k) = Inl err \<Longrightarrow>
   \<exists>err'. traiter_pages w epp n pages sortie = Inl err'"
proof (induction pages arbitrary: n k sortie)
  case Nil
  then show ?case by simp
next
  case (Cons p pages)
  show ?case
  proof (cases "traiter_page w epp n p")
    case (Inl x)
    then show ?thesis by simp
  next
    case (Inr p')
    with Cons.prems obtain k' where k': "k = Suc k'"
      by (cases k) auto
    with Cons.prems have "k' < length pages"
      "traiter_page w epp (Suc n + k') (pages ! k') = Inl err"
      by auto
    from Cons.IH [OF this] Inr show ?thesis by simp
  qed
qed

text \<open>Only the groups of the page numbers of the document are looked at.\<close>

lemma traiter_pages_cong:
  "(\<And>k. k < length pages \<Longrightarrow> epp (int (n + k)) = epp' (int (n + k))) \<Longrightarrow>
   traiter_pages w epp n pages sortie = traiter_pages w epp' n pages sortie"
proof (induction pages arbitrary: n sortie)
  case Nil
  show ?case by simp
next
  case (Cons p pages)
  have "epp (int n) = epp' (int n)"
    using Cons.prems [of 0] by simp
  then have 1: "traiter_page w epp n p = traiter_page w epp' n p"
    by (simp add: traiter_page_def)
  have "\<And>k. k < length pages \<Longrightarrow> epp (int (Suc n + k)) = epp' (int (Suc n + k))"
    using Cons.prems [of "Suc k" for k] by simp
  then have 2: "traiter_pages w epp (Suc n) pages s = traiter_pages w epp' (Suc n) pages s" for s
    by (rule Cons.IH)
  show ?case
    by (simp add: 1 2 split: sum.splits)
qed

lemma traiter_pages_sans_element:
  "(\<And>k. k < length pages \<Longrightarrow> epp (int (n + k)) = None) \<Longrightarrow>
   traiter_pages w epp n pages sortie = Inr (sortie @ pages)"
proof (induction pages arbitrary: n sortie)
  case Nil
  show ?case by simp
next
  case (Cons p pages)
  have 0: "epp (int n) = None"
    using Cons.prems [of 0] by simp
  have "\<And>k. k < length pages \<Longrightarrow> epp (int (Suc n + k)) = None"
    using Cons.prems [of "Suc k" for k] by simp
  from Cons.IH [OF this] 0 show ?case
    by (simp add: traiter_page_def)
qed

subsection \<open>The shape of a run of \<^verbatim>\<open>generer\<close>\<close>

lemma PdfReader_Inr: "PdfReader w path = Inr pages \<longleftrightarrow> files w path = Some (PdfFile pages)"
  by (auto simp: PdfReader_def split: option.splits fs_file.splits)

lemma generer_Inr:
  "PdfReader w (fichier_pdf_entree (heap w self)) = Inr pages \<Longrightarrow>
   traiter_pages w (elements_par_page (elements (heap w self))) 0 pages [] = Inr sortie \<Longrightarrow>
   writable w out \<Longrightarrow>
   generer w self out =
     (w\<lparr>files := (files w)(out \<mapsto> PdfFile sortie),
        stdout := stdout w @ [Pdf_genere out, Total_elements (length (elements (heap w self)))]\<rparr>,
      Inr ())"
  by (simp add: generer_def Let_def)

lemma generer_cases:
  "(\<exists>e. generer w self out = (w, Inl e)) \<or>
   (\<exists>pages sortie.
      PdfReader w (fichier_pdf_entree (heap w self)) = Inr pages \<and>
      traiter_pages w (elements_par_page (elements (heap w self))) 0 pages [] = Inr sortie \<and>
      writable w out \<and>
      generer w self out =
       (w\<lparr>files := (files w)(out \<mapsto> PdfFile sortie),
          stdout := stdout w @ [Pdf_genere out, Total_elements (length (elements (heap w self)))]\<rparr>,
        Inr ()))"
  by (auto simp: generer_def Let_def split: sum.splits)

text \<open>
  The whole pipeline on the two-line scenario: one page of A4 size, one text annotation,
  and the output document holds that page with one overlay of two text runs.
\<close>

lemma scenario_hello_world:
  "generer monde_hello 0 ''out.pdf'' =
     (monde_hello\<lparr>files := (files monde_hello)(''out.pdf'' \<mapsto> PdfFile
        [page_A4\<lparr>merged :=
           [\<lparr>pagesize = (595.28, 841.89),
             ops = [SaveState, SetFont ''Helvetica'' 10, SetFillColor 0, SetFillAlpha 1,
                    DrawString 10 700 ''Hello'', DrawString 10 688 ''World'', RestoreState]\<rparr>]\<rparr>]),
        stdout := stdout monde_hello @ [Pdf_genere ''out.pdf'', Total_elements 1]\<rparr>,
      Inr ())"
  by (simp add: generer_def monde_hello_def monde_exemple_def ajouter_texte_def EditeurPDF_init_def
      PdfReader_def texte_hello_def elements_par_page_def ranger_def traiter_page_def
      merge_page_def page_A4_def newline_def Let_def)

subsection \<open>The signature block, unfolded\<close>

lemma signer_pdf_region_eq:
  "signer_pdf_region w r x y page largeur hauteur conserver_ratio chemin =
     (w\<lparr>heap := (heap w)(r := (heap w r)\<lparr>elements := elements (heap w r) @
           [Elem_image chemin (x + 135) (y - 35) page (Some 70) (Some 70) conserver_ratio 0 1,
            Elem_texte texte_lorem x y page 6 ''Helvetica-Bold'' ''#000000'' 0 1,
            Elem_texte (texte_signataire (date_du_jour w)) (x + 170) (y + 5) page 8
              ''Helvetica-Bold'' ''#000000'' 0 1]\<rparr>),
         stdout := stdout w @
           [Image_ajoutee chemin page (x + 135) (y - 35),
            Texte_ajoute texte_lorem page x y,
            Texte_ajoute (texte_signataire (date_du_jour w)) page (x + 170) (y + 5)]\<rparr>,
      r)"
  by (simp add: signer_pdf_region_def ajouter_image_def ajouter_texte_def Let_def add.commute)

subsection \<open>What a run reads of the world\<close>

lemma images_lues_filter: "set (images_lues (filter P es)) \<subseteq> set (images_lues es)"
  by (induction es rule: images_lues.induct) auto

lemma dessiner_element_monde:
  assumes "fonts w' = fonts w" and "HexColor w' = HexColor w"
    and "\<And>c. c \<in> set (images_lues [e]) \<Longrightarrow> files w' c = files w c"
  shows "dessiner_element w' e can = dessiner_element w e can"
proof (cases e)
  case (Elem_texte texte x y page taille_police police couleur rotation opacite)
  then show ?thesis
    using assms(1,2) by simp
next
  case (Elem_image chemin_image x y page largeur hauteur conserver_ratio rotation opacite)
  with assms(3) have "Image_open_size w' chemin_image = Image_open_size w chemin_image"
    by (simp add: Image_open_size_def)
  with Elem_image show ?thesis
    by simp
qed

lemma dessiner_elements_monde:
  assumes "fonts w' = fonts w" and "HexColor w' = HexColor w"
  shows "(\<And>c. c \<in> set (images_lues es) \<Longrightarrow> files w' c = files w c) \<Longrightarrow>
    dessiner_elements w' es can = dessiner_elements w es can"
proof (induction es arbitrary: can)
  case Nil
  show ?case by simp
next
  case (Cons e es)
  have sub: "set (images_lues [e]) \<subseteq> set (images_lues (e # es))"
    "set (images_lues es) \<subseteq> set (images_lues (e # es))"
    by (cases e; auto)+
  have 1: "dessiner_element w' e can = dessiner_element w e can"
    using sub(1) Cons.prems by (intro dessiner_element_monde assms) blast
  have 2: "dessiner_elements w' es c = dessiner_elements w es c" for c
    using sub(2) Cons.prems by (intro Cons.IH) blast
  show ?case
    by (simp add: 1 2 split: sum.splits)
qed

lemma traiter_pages_monde:
  assumes "fonts w' = fonts w" and "HexColor w' = HexColor w"
    and "\<And>p elems c. epp p = Some elems \<Longrightarrow> c \<in> set (images_lues elems) \<Longrightarrow>
           files w' c = files w c"
  shows "traiter_pages w' epp n pages sortie = traiter_pages w epp n pages sortie"
proof (induction pages arbitrary: n sortie)
  case Nil
  show ?case by simp
next
  case (Cons p pages)
  have "traiter_page w' epp n p = traiter_page w epp n p"
  proof (cases "epp (int n)")
    case None
    then show ?thesis by (simp add: traiter_page_def)
  next
    case (Some elems)
    then have "dessiner_elements w' elems [] = dessiner_elements w elems []"
      using assms(3) by (intro dessiner_elements_monde assms(1,2)) blast
    with Some show ?thesis by (simp add: traiter_page_def)
  qed
  then show ?case
    by (simp add: Cons.IH split: sum.splits)
qed

lemma traiter_pages_elements_monde:
  assumes "fonts w' = fonts w" and "HexColor w' = HexColor w"
    and "\<And>c. c \<in> set (images_lues es) \<Longrightarrow> files w' c = files w c"
  shows "traiter_pages w' (elements_par_page es) n pages sortie =
         traiter_pages w (elements_par_page es) n pages sortie"
proof (rule traiter_pages_monde [OF assms(1,2)])
  fix p elems c
  assume "elements_par_page es p = Some elems" and c: "c \<in> set (images_lues elems)"
  then have "elems = filter (\<lambda>e. elem_page e = p) es"
    by (auto simp: elements_par_page_eq split: if_splits)
  with c have "c \<in> set (images_lues es)"
    using images_lues_filter by blast
  then show "files w' c = files w c"
    by (rule assms(3))
qed

lemma elements_par_page_existante:
  "k < n \<Longrightarrow>
   elements_par_page (elements_sur_page_existante n es) (int k) = elements_par_page es (int k)"
proof -
  assume "k < n"
  then have "filter (\<lambda>e. elem_page e = int k) (elements_sur_page_existante n es) =
             filter (\<lambda>e. elem_page e = int k) es"
    by (auto simp: elements_sur_page_existante_def intro: filter_cong)
  then show ?thesis
    by (simp add: elements_par_page_eq)
qed

lemma elements_par_page_absente:
  "\<forall>e\<in>set es. elem_page e < 0 \<or> int n \<le> elem_page e \<Longrightarrow> k < n \<Longrightarrow>
   elements_par_page es (int k) = None"
  by (auto simp: elements_par_page_eq filter_empty_conv)

lemma generer_avec_elements:
  assumes "PdfReader w (fichier_pdf_entree (heap w self)) = Inr pages"
    and "traiter_pages w (elements_par_page es) 0 pages [] =
         traiter_pages w (elements_par_page (elements (heap w self))) 0 pages []"
  shows "snd (generer (avec_elements w self es) self out) = snd (generer w self out)"
    and "files (fst (generer (avec_elements w self es) self out)) = files (fst (generer w self out))"
proof -
  let ?w' = "avec_elements w self es"
  have f: "fonts ?w' = fonts w" "HexColor ?w' = HexColor w" "files ?w' = files w"
    "writable ?w' = writable w" "elements (heap ?w' self) = es"
    "fichier_pdf_entree (heap ?w' self) = fichier_pdf_entree (heap w self)"
    by (simp_all add: avec_elements_def)
  have r: "PdfReader ?w' (fichier_pdf_entree (heap ?w' self)) = Inr pages"
    using assms(1) by (simp add: PdfReader_def f)
  have "traiter_pages ?w' (elements_par_page es) 0 pages [] =
        traiter_pages w (elements_par_page es) 0 pages []"
    by (rule traiter_pages_elements_monde) (simp_all add: f)
  with assms(2) have t: "traiter_pages ?w' (elements_par_page es) 0 pages [] =
        traiter_pages w (elements_par_page (elements (heap w self))) 0 pages []"
    by simp
  show "snd (generer ?w' self out) = snd (generer w self out)"
    using assms(1) r t by (simp add: generer_def Let_def f split: sum.splits)
  show "files (fst (generer ?w' self out)) = files (fst (generer w self out))"
    using assms(1) r t by (simp add: generer_def Let_def f split: sum.splits)
qed

lemma generer_files_autres: "p \<noteq> out \<Longrightarrow> files (fst (generer w self out)) p = files w p"
  using generer_cases [of w self out] by auto

subsection \<open>The concrete worlds\<close>

lemma monde_hello_simps:
  "elements (heap monde_hello 0) = [Elem_texte texte_hello 10 700 0 10 ''Helvetica'' ''#000000'' 0 1]"
  "fichier_pdf_entree (heap monde_hello 0) = ''document.pdf''"
  "files monde_hello = files monde_exemple"
  "fonts monde_hello = fonts monde_exemple"
  "HexColor monde_hello = HexColor monde_exemple"
  "writable monde_hello = writable monde_exemple"
  by (simp_all add: monde_hello_def ajouter_texte_def monde_exemple_def EditeurPDF_init_def Let_def)

lemma monde_exemple_simps:
  "files monde_exemple ''document.pdf'' = Some (PdfFile [page_A4])"
  "files monde_exemple ''missing.png'' = None"
  "writable monde_exemple p"
  by (simp_all add: monde_exemple_def)

lemma monde_signe_simps:
  "elements (heap monde_signe 0) =
     [Elem_image ''resources/adobe_logo.png'' 185 115 0 (Some 70) (Some 70) True 0 1,
      Elem_texte texte_lorem 50 150 0 6 ''Helvetica-Bold'' ''#000000'' 0 1,
      Elem_texte (texte_signataire ''04/11/2026'') 220 155 0 8 ''Helvetica-Bold'' ''#000000'' 0 1]"
  "fichier_pdf_entree (heap monde_signe 0) = ''document.pdf''"
  "files monde_signe = files monde_exemple"
  "fonts monde_signe = fonts monde_exemple"
  "HexColor monde_signe = HexColor monde_exemple"
  "writable monde_signe = writable monde_exemple"
  by (simp_all add: monde_signe_def signer_pdf_region_eq monde_exemple_def EditeurPDF_init_def)

lemma generer_monde_signe: "snd (generer monde_signe 0 ''out.pdf'') = Inr ()"
  by (simp add: generer_def monde_signe_simps PdfReader_def monde_exemple_def
      elements_par_page_def ranger_def traiter_page_def Image_open_size_def
      dimensions_finales_def Let_def)

subsection \<open>What a successful run paints\<close>

lemma dessiner_elements_prefix:
  "dessiner_elements w es can =
     (case dessiner_elements w es [] of Inl err \<Rightarrow> Inl err | Inr dessin \<Rightarrow> Inr (can @ dessin))"
proof (induction es arbitrary: can)
  case Nil
  show ?case by simp
next
  case (Cons e es)
  show ?case
  proof (cases "dessiner_element w e []")
    case (Inl err)
    then show ?thesis
      using dessiner_element_prefix [of w e can] by simp
  next
    case (Inr d)
    then have 1: "dessiner_element w e can = Inr (can @ d)"
      using dessiner_element_prefix [of w e can] by simp
    show ?thesis
      using Cons.IH [of "can @ d"] Cons.IH [of d] Inr 1
      by (simp split: sum.splits)
  qed
qed

text \<open>In a painted group, the calls of each annotation stand together, in one run.\<close>

lemma dessiner_elements_Inr:
  "dessiner_elements w es can = Inr dessin \<Longrightarrow> e \<in> set es \<Longrightarrow>
   \<exists>avant d apres. dessiner_element w e [] = Inr d \<and> dessin = avant @ d @ apres"
proof (induction es arbitrary: can)
  case Nil
  then show ?case by simp
next
  case (Cons a es)
  from Cons.prems(1) obtain d where d: "dessiner_element w a [] = Inr d"
    and a: "dessiner_element w a can = Inr (can @ d)"
    and r: "dessiner_elements w es (can @ d) = Inr dessin"
    using dessiner_element_prefix [of w a can] by (auto split: sum.splits)
  show ?case
  proof (cases "e = a")
    case True
    from r obtain apres where "dessin = (can @ d) @ apres"
      using dessiner_elements_prefix [of w es "can @ d"] by (auto split: sum.splits)
    with d True show ?thesis by auto
  next
    case False
    with Cons.prems(2) have "e \<in> set es" by simp
    from Cons.IH [OF r this] show ?thesis .
  qed
qed

lemma traiter_pages_Inr:
  "traiter_pages w epp n pages sortie = Inr res \<Longrightarrow>
   length res = length sortie + length pages \<and> take (length sortie) res = sortie \<and>
   (\<forall>k<length pages. traiter_page w epp (n + k) (pages ! k) = Inr (res ! (length sortie + k)))"
proof (induction pages arbitrary: n sortie)
  case Nil
  then show ?case by simp
next
  case (Cons p pages)
  from Cons.prems obtain p' where p': "traiter_page w epp n p = Inr p'"
    and r: "traiter_pages w epp (Suc n) pages (sortie @ [p']) = Inr res"
    by (auto split: sum.splits)
  from Cons.IH [OF r] have len: "length res = length sortie + Suc (length pages)"
    and tk: "take (Suc (length sortie)) res = sortie @ [p']"
    and rest: "\<forall>k<length pages.
      traiter_page w epp (Suc n + k) (pages ! k) = Inr (res ! (Suc (length sortie) + k))"
    by simp_all
  from tk have "take (length sortie) (take (Suc (length sortie)) res) = sortie"
    by simp
  then have tk': "take (length sortie) res = sortie"
    by (simp add: min_def)
  from tk len have "res ! length sortie = (sortie @ [p']) ! length sortie"
    by (metis lessI nth_take)
  then have at: "res ! length sortie = p'"
    by simp
  have "traiter_page w epp (n + k) ((p # pages) ! k) = Inr (res ! (length sortie + k))"
    if "k < length (p # pages)" for k
  proof (cases k)
    case 0
    with p' at show ?thesis by simp
  next
    case (Suc k')
    with that rest show ?thesis by simp
  qed
  with len tk' show ?case by simp
qed

text \<open>
  What a successful run leaves on the page of an annotation: the output has as many
  pages as the source, and the page of the annotation is the source page with one more
  overlay, of the size of the page, in which the calls of the annotation stand together.
\<close>

lemma generer_peint:
  assumes src: "files w (fichier_pdf_entree (heap w self)) = Some (PdfFile pages)"
    and ok: "snd (generer w self out) = Inr ()"
    and e: "e \<in> set (elements (heap w self))"
    and p: "0 \<le> elem_page e" "elem_page e < int (length pages)"
  shows "\<exists>sortie avant d apres.
      files (fst (generer w self out)) out = Some (PdfFile sortie) \<and>
      length sortie = length pages \<and>
      dessiner_element w e [] = Inr d \<and>
      sortie ! nat (elem_page e) =
        merge_page (pages ! nat (elem_page e))
          \<lparr>pagesize = (mediabox_width (pages ! nat (elem_page e)),
                       mediabox_height (pages ! nat (elem_page e))),
           ops = avant @ d @ apres\<rparr>"
proof -
  let ?epp = "elements_par_page (elements (heap w self))"
  let ?k = "nat (elem_page e)"
  have r: "PdfReader w (fichier_pdf_entree (heap w self)) = Inr pages"
    using src by (simp add: PdfReader_Inr)
  from generer_cases [of w self out] ok r obtain sortie
    where t: "traiter_pages w ?epp 0 pages [] = Inr sortie"
      and g: "files (fst (generer w self out)) out = Some (PdfFile sortie)"
    by auto
  from p have k: "?k < length pages" "int ?k = elem_page e"
    by auto
  from traiter_pages_Inr [OF t] k(1) have len: "length sortie = length pages"
    and tk: "traiter_page w ?epp ?k (pages ! ?k) = Inr (sortie ! ?k)"
    by auto
  obtain elems where grp: "?epp (elem_page e) = Some elems" and m: "e \<in> set elems"
    using elements_par_page_mem [OF e] by blast
  from tk grp k(2) obtain dessin where dessin: "dessiner_elements w elems [] = Inr dessin"
    and pk: "sortie ! ?k = merge_page (pages ! ?k)
        \<lparr>pagesize = (mediabox_width (pages ! ?k), mediabox_height (pages ! ?k)), ops = dessin\<rparr>"
    by (auto simp: traiter_page_def Let_def split: sum.splits)
  from dessiner_elements_Inr [OF dessin m] obtain avant d apres
    where "dessiner_element w e [] = Inr d" "dessin = avant @ d @ apres"
    by blast
  with g len pk show ?thesis
    by blast
qed

subsection \<open>The calls of one annotation\<close>

lemma dessiner_texte_sans_rotation:
  assumes "fonts w police" and "HexColor w couleur = Some c" and "0 \<le> opacite" and "opacite \<le> 1"
  shows "dessiner_element w (Elem_texte texte x y page taille_police police couleur 0 opacite) can =
     Inr (can @ [SaveState, SetFont police taille_police, SetFillColor c, SetFillAlpha opacite] @
          map (\<lambda>k. DrawString x (y - real k * taille_police * 1.2) (split_on newline texte ! k))
            [0..<Suc (count_list texte newline)] @
          [RestoreState])"
  using assms by (simp add: Let_def map_enumerate_nth length_split_on del: upt_Suc)

lemma dessiner_texte_avec_rotation:
  assumes "fonts w police" and "HexColor w couleur = Some c" and "0 \<le> opacite" and "opacite \<le> 1"
    and "rotation \<noteq> 0"
  shows "dessiner_element w
       (Elem_texte texte x y page taille_police police couleur rotation opacite) can =
     Inr (can @ [SaveState, SetFont police taille_police, SetFillColor c, SetFillAlpha opacite] @
          [Translate x y, Rotate rotation] @
          map (\<lambda>k. DrawString 0 (- real k * taille_police * 1.2) (split_on newline texte ! k))
            [0..<Suc (count_list texte newline)] @
          [RestoreState])"
  using assms by (simp add: Let_def map_enumerate_nth length_split_on del: upt_Suc)

lemma dessiner_image_eq:
  assumes "files w chemin = Some (ImageFile img_largeur img_hauteur)"
    and "dimensions_finales (img_largeur, img_hauteur) largeur hauteur conserver_ratio =
         Inr (largeur_finale, hauteur_finale)"
    and "0 \<le> opacite" and "opacite \<le> 1"
  shows "dessiner_element w
       (Elem_image chemin x y page largeur hauteur conserver_ratio rotation opacite) can =
     Inr (can @ [SaveState, SetFillAlpha opacite, SetStrokeAlpha opacite] @
          (if rotation \<noteq> 0
           then [Translate x y, Rotate rotation,
                 DrawImage chemin 0 0 largeur_finale hauteur_finale conserver_ratio ''auto'']
           else [DrawImage chemin x y largeur_finale hauteur_finale conserver_ratio ''auto'']) @
          [RestoreState])"
  using assms by (simp add: Image_open_size_def Let_def)

lemma filter_est_rotation_DrawString:
  "filter est_rotation (map (\<lambda>k. DrawString (f k) (g k) (h k)) ks) = []"
  by (induction ks) simp_all

lemma scenario_rotation:
  "generer monde_rotation 0 ''out.pdf'' =
     (monde_rotation\<lparr>files := (files monde_rotation)(''out.pdf'' \<mapsto> PdfFile
        [page_A4\<lparr>merged :=
           [\<lparr>pagesize = (595.28, 841.89),
             ops = [SaveState, SetFont ''Helvetica'' 10, SetFillColor 0, SetFillAlpha 1,
                    Translate 10 700, Rotate 45,
                    DrawString 0 0 ''Hello'', DrawString 0 (- 12) ''World'', RestoreState]\<rparr>]\<rparr>]),
        stdout := stdout monde_rotation @ [Pdf_genere ''out.pdf'', Total_elements 1]\<rparr>,
      Inr ())"
  by (simp add: generer_def monde_rotation_def monde_exemple_def ajouter_texte_def
      EditeurPDF_init_def PdfReader_def texte_hello_def elements_par_page_def ranger_def
      traiter_page_def merge_page_def page_A4_def newline_def Let_def)

lemma scenario_image:
  "generer monde_image 0 ''out.pdf'' =
     (monde_image\<lparr>files := (files monde_image)(''out.pdf'' \<mapsto> PdfFile
        [page_A4\<lparr>merged :=
           [\<lparr>pagesize = (595.28, 841.89),
             ops = [SaveState, SetFillAlpha 1, SetStrokeAlpha 1,
                    DrawImage ''resources/adobe_logo.png'' 185 115 70 35 True ''auto'',
                    RestoreState]\<rparr>]\<rparr>]),
        stdout := stdout monde_image @ [Pdf_genere ''out.pdf'', Total_elements 1]\<rparr>,
      Inr ())"
  by (simp add: generer_def monde_image_def monde_exemple_def ajouter_image_def
      EditeurPDF_init_def PdfReader_def Image_open_size_def dimensions_finales_def
      elements_par_page_def ranger_def traiter_page_def merge_page_def page_A4_def Let_def)

section \<open>The claims\<close>

text \<open>
  Claim C1. For every source document and an editor with no pending annotation,
  \<^verbatim>\<open>generer\<close> copies every page of the document unchanged, in the original order,
  into the output: no overlay is merged onto any page, so the loop over the pages
  returns the pages it was given and the output file holds exactly them. (The source
  document must be readable and the output path writable for there to be an output.)
\<close>

theorem generer_sans_element_copie:
  assumes "elements (heap w self) = []"
    and "files w (fichier_pdf_entree (heap w self)) = Some (PdfFile pages)"
    and "writable w out"
  shows "traiter_pages w (elements_par_page (elements (heap w self))) 0 pages [] = Inr pages
    \<and> generer w self out =
       (w\<lparr>files := (files w)(out \<mapsto> PdfFile pages),
          stdout := stdout w @ [Pdf_genere out, Total_elements 0]\<rparr>,
        Inr ())"
proof -
  have r: "PdfReader w (fichier_pdf_entree (heap w self)) = Inr pages"
    using assms(2) by (simp add: PdfReader_Inr)
  have "elements_par_page (elements (heap w self)) (int (0 + k)) = None" for k
    using assms(1) by (simp add: elements_par_page_eq)
  then have t:
    "traiter_pages w (elements_par_page (elements (heap w self))) 0 pages [] = Inr ([] @ pages)"
    by (rule traiter_pages_sans_element)
  then show ?thesis
    using generer_Inr [OF r _ assms(3), of pages] assms(1) by simp
qed

theorem generer_sans_element_copie_witness:
  "elements (heap monde_exemple 0) = [] \<and>
   files monde_exemple (fichier_pdf_entree (heap monde_exemple 0)) = Some (PdfFile [page_A4]) \<and>
   writable monde_exemple ''out.pdf'' \<and>
   files (fst (generer monde_exemple 0 ''out.pdf'')) ''out.pdf'' = Some (PdfFile [page_A4]) \<and>
   snd (generer monde_exemple 0 ''out.pdf'') = Inr ()"
proof -
  have 1: "elements (heap monde_exemple 0) = []"
    and 2: "files monde_exemple (fichier_pdf_entree (heap monde_exemple 0)) =
      Some (PdfFile [page_A4])"
    and 3: "writable monde_exemple ''out.pdf''"
    by (simp_all add: monde_exemple_def EditeurPDF_init_def)
  show ?thesis
    using generer_sans_element_copie [OF 1 2 3] 1 2 3 by simp
qed

text \<open>
  Claim C2. The final dimensions of an image annotation, from the natural size
  \<open>(img_largeur, img_hauteur)\<close> of the image in pixels: with neither width nor height
  set, the natural size; with only the width set and the ratio kept, the height is the
  width times \<open>img_hauteur / img_largeur\<close>; with only the height set and the ratio kept,
  the width is the height times \<open>img_largeur / img_hauteur\<close>; with the ratio not kept,
  the unset dimension is the natural size in that axis, unscaled; with both set, both as
  given. (A natural size of zero, for which the ratio does not exist, is left out of the
  two ratio cases.) These are the width and height handed to \<^verbatim>\<open>drawImage\<close>, for an
  opacity within \<open>[0, 1]\<close> (outside it \<^verbatim>\<open>setFillAlpha\<close> raises before the image is
  drawn); and when \<^verbatim>\<open>generer\<close> succeeds with such an annotation on a page of the
  document, the output has that page with an overlay of the size of the page that holds
  this \<^verbatim>\<open>drawImage\<close> call with these dimensions.
\<close>

theorem dimensions_finales_regle:
  "dimensions_finales (img_largeur, img_hauteur) None None conserver_ratio =
     Inr (real img_largeur, real img_hauteur)
   \<and> (img_largeur \<noteq> 0 \<longrightarrow>
        dimensions_finales (img_largeur, img_hauteur) (Some l) None True =
          Inr (l, l * (real img_hauteur / real img_largeur)))
   \<and> (img_hauteur \<noteq> 0 \<longrightarrow>
        dimensions_finales (img_largeur, img_hauteur) None (Some h) True =
          Inr (h * (real img_largeur / real img_hauteur), h))
   \<and> dimensions_finales (img_largeur, img_hauteur) (Some l) None False = Inr (l, real img_hauteur)
   \<and> dimensions_finales (img_largeur, img_hauteur) None (Some h) False = Inr (real img_largeur, h)
   \<and> dimensions_finales (img_largeur, img_hauteur) (Some l) (Some h) conserver_ratio = Inr (l, h)
   \<and> (files w chemin = Some (ImageFile img_largeur img_hauteur) \<longrightarrow>
        dimensions_finales (img_largeur, img_hauteur) largeur hauteur conserver_ratio =
          Inr (largeur_finale, hauteur_finale) \<longrightarrow>
        0 \<le> opacite \<longrightarrow> opacite \<le> 1 \<longrightarrow>
        (\<exists>dessin.
           dessin =
             [SaveState, SetFillAlpha opacite, SetStrokeAlpha opacite] @
             (if rotation \<noteq> 0
              then [Translate x y, Rotate rotation,
                    DrawImage chemin 0 0 largeur_finale hauteur_finale conserver_ratio ''auto'']
              else [DrawImage chemin x y largeur_finale hauteur_finale conserver_ratio ''auto'']) @
             [RestoreState]
           \<and> dessiner_element w
               (Elem_image chemin x y page largeur hauteur conserver_ratio rotation opacite) can =
             Inr (can @ dessin)
           \<and> (files w (fichier_pdf_entree (heap w self)) = Some (PdfFile pages) \<longrightarrow>
              Elem_image chemin x y page largeur hauteur conserver_ratio rotation opacite
                \<in> set (elements (heap w self)) \<longrightarrow>
              0 \<le> page \<longrightarrow> page < int (length pages) \<longrightarrow>
              snd (generer w self out) = Inr () \<longrightarrow>
              (\<exists>sortie avant apres.
                 files (fst (generer w self out)) out = Some (PdfFile sortie) \<and>
                 length sortie = length pages \<and>
                 sortie ! nat page =
                   merge_page (pages ! nat page)
                     \<lparr>pagesize = (mediabox_width (pages ! nat page),
                                  mediabox_height (pages ! nat page)),
                      ops = avant @ dessin @ apres\<rparr>))))"
proof -
  let ?e = "Elem_image chemin x y page largeur hauteur conserver_ratio rotation opacite"
  let ?dessin = "[SaveState, SetFillAlpha opacite, SetStrokeAlpha opacite] @
             (if rotation \<noteq> 0
              then [Translate x y, Rotate rotation,
                    DrawImage chemin 0 0 largeur_finale hauteur_finale conserver_ratio ''auto'']
              else [DrawImage chemin x y largeur_finale hauteur_finale conserver_ratio ''auto'']) @
             [RestoreState]"
  have regle: "dimensions_finales (img_largeur, img_hauteur) None None conserver_ratio =
     Inr (real img_largeur, real img_hauteur)
   \<and> (img_largeur \<noteq> 0 \<longrightarrow>
        dimensions_finales (img_largeur, img_hauteur) (Some l) None True =
          Inr (l, l * (real img_hauteur / real img_largeur)))
   \<and> (img_hauteur \<noteq> 0 \<longrightarrow>
        dimensions_finales (img_largeur, img_hauteur) None (Some h) True =
          Inr (h * (real img_largeur / real img_hauteur), h))
   \<and> dimensions_finales (img_largeur, img_hauteur) (Some l) None False = Inr (l, real img_hauteur)
   \<and> dimensions_finales (img_largeur, img_hauteur) None (Some h) False = Inr (real img_largeur, h)
   \<and> dimensions_finales (img_largeur, img_hauteur) (Some l) (Some h) conserver_ratio = Inr (l, h)"
    by (simp add: dimensions_finales_def Let_def)
  have peint: "\<exists>dessin. dessin = ?dessin
           \<and> dessiner_element w ?e can = Inr (can @ dessin)
           \<and> (files w (fichier_pdf_entree (heap w self)) = Some (PdfFile pages) \<longrightarrow>
              ?e \<in> set (elements (heap w self)) \<longrightarrow>
              0 \<le> page \<longrightarrow> page < int (length pages) \<longrightarrow>
              snd (generer w self out) = Inr () \<longrightarrow>
              (\<exists>sortie avant apres.
                 files (fst (generer w self out)) out = Some (PdfFile sortie) \<and>
                 length sortie = length pages \<and>
                 sortie ! nat page =
                   merge_page (pages ! nat page)
                     \<lparr>pagesize = (mediabox_width (pages ! nat page),
                                  mediabox_height (pages ! nat page)),
                      ops = avant @ dessin @ apres\<rparr>))"
    if img: "files w chemin = Some (ImageFile img_largeur img_hauteur)"
      and dim: "dimensions_finales (img_largeur, img_hauteur) largeur hauteur conserver_ratio =
          Inr (largeur_finale, hauteur_finale)"
      and op: "0 \<le> opacite" "opacite \<le> 1"
  proof -
    have d: "dessiner_element w ?e can' = Inr (can' @ ?dessin)" for can'
      using dessiner_image_eq [OF img dim op] .
    have "\<exists>sortie avant apres.
           files (fst (generer w self out)) out = Some (PdfFile sortie) \<and>
           length sortie = length pages \<and>
           sortie ! nat page =
             merge_page (pages ! nat page)
               \<lparr>pagesize = (mediabox_width (pages ! nat page), mediabox_height (pages ! nat page)),
                ops = avant @ ?dessin @ apres\<rparr>"
      if "files w (fichier_pdf_entree (heap w self)) = Some (PdfFile pages)"
        and "?e \<in> set (elements (heap w self))" and "0 \<le> page" and "page < int (length pages)"
        and "snd (generer w self out) = Inr ()"
      using generer_peint [OF that(1) that(5) that(2)] that(3,4) d [of "[]"] by auto
    with d [of can] show ?thesis
      by blast
  qed
  from regle peint show ?thesis
    by blast
qed

theorem dimensions_finales_regle_witness:
  "(200::nat) \<noteq> 0 \<and> (100::nat) \<noteq> 0
   \<and> files monde_image ''resources/adobe_logo.png'' = Some (ImageFile 200 100)
   \<and> (0::real) \<le> 1 \<and> (1::real) \<le> 1
   \<and> files monde_image (fichier_pdf_entree (heap monde_image 0)) = Some (PdfFile [page_A4])
   \<and> Elem_image ''resources/adobe_logo.png'' 185 115 0 (Some 70) None True 0 1
       \<in> set (elements (heap monde_image 0))
   \<and> (0::int) \<le> 0 \<and> (0::int) < int (length [page_A4])
   \<and> snd (generer monde_image 0 ''out.pdf'') = Inr ()
   \<and> dimensions_finales (200, 100) None None True = Inr (200, 100)
   \<and> dimensions_finales (200, 100) (Some 70) None True = Inr (70, 35)
   \<and> dimensions_finales (200, 100) None (Some 70) True = Inr (140, 70)
   \<and> dimensions_finales (200, 100) (Some 70) None False = Inr (70, 100)
   \<and> dimensions_finales (200, 100) None (Some 70) False = Inr (200, 70)
   \<and> dimensions_finales (200, 100) (Some 70) (Some 70) True = Inr (70, 70)
   \<and> dessiner_element monde_image
       (Elem_image ''resources/adobe_logo.png'' 185 115 0 (Some 70) None True 0 1) [] =
       Inr [SaveState, SetFillAlpha 1, SetStrokeAlpha 1,
            DrawImage ''resources/adobe_logo.png'' 185 115 70 35 True ''auto'', RestoreState]
   \<and> files (fst (generer monde_image 0 ''out.pdf'')) ''out.pdf'' =
       Some (PdfFile
         [merge_page page_A4
            \<lparr>pagesize = (mediabox_width page_A4, mediabox_height page_A4),
             ops = [SaveState, SetFillAlpha 1, SetStrokeAlpha 1,
                    DrawImage ''resources/adobe_logo.png'' 185 115 70 35 True ''auto'',
                    RestoreState]\<rparr>])"
proof -
  let ?e = "Elem_image ''resources/adobe_logo.png'' 185 115 0 (Some 70) None True 0 1"
  have w: "elements (heap monde_image 0) = [?e]"
    "fichier_pdf_entree (heap monde_image 0) = ''document.pdf''"
    "files monde_image = files monde_exemple"
    by (simp_all add: monde_image_def ajouter_image_def monde_exemple_def EditeurPDF_init_def
        Let_def)
  have i: "files monde_image ''resources/adobe_logo.png'' = Some (ImageFile 200 100)"
    by (simp add: w monde_exemple_def)
  have s: "files monde_image (fichier_pdf_entree (heap monde_image 0)) = Some (PdfFile [page_A4])"
    by (simp add: w monde_exemple_simps)
  have m: "?e \<in> set (elements (heap monde_image 0))"
    by (simp add: w)
  have g: "snd (generer monde_image 0 ''out.pdf'') = Inr ()"
    by (simp add: scenario_image)
  note t = dimensions_finales_regle [where img_largeur = 200 and img_hauteur = 100
      and conserver_ratio = True and l = 70 and h = 70 and w = monde_image
      and chemin = "''resources/adobe_logo.png''" and largeur = "Some 70" and hauteur = None
      and largeur_finale = 70 and hauteur_finale = 35 and x = 185 and y = 115 and page = 0
      and rotation = 0 and opacite = 1 and can = "[]" and self = 0 and pages = "[page_A4]"
      and out = "''out.pdf''"]
  from t have regle: "dimensions_finales (200, 100) None None True = Inr (200, 100)
   \<and> dimensions_finales (200, 100) (Some 70) None True = Inr (70, 35)
   \<and> dimensions_finales (200, 100) None (Some 70) True = Inr (140, 70)
   \<and> dimensions_finales (200, 100) (Some 70) None False = Inr (70, 100)
   \<and> dimensions_finales (200, 100) None (Some 70) False = Inr (200, 70)
   \<and> dimensions_finales (200, 100) (Some 70) (Some 70) True = Inr (70, 70)"
    by simp
  then have dim: "dimensions_finales (200, 100) (Some 70) None True = Inr (70, 35)"
    by blast
  from t i dim s m g obtain sortie where
    d: "dessiner_element monde_image ?e [] =
       Inr [SaveState, SetFillAlpha 1, SetStrokeAlpha 1,
            DrawImage ''resources/adobe_logo.png'' 185 115 70 35 True ''auto'', RestoreState]"
    and "files (fst (generer monde_image 0 ''out.pdf'')) ''out.pdf'' = Some (PdfFile sortie)"
    by auto
  have "files (fst (generer monde_image 0 ''out.pdf'')) ''out.pdf'' =
       Some (PdfFile
         [merge_page page_A4
            \<lparr>pagesize = (mediabox_width page_A4, mediabox_height page_A4),
             ops = [SaveState, SetFillAlpha 1, SetStrokeAlpha 1,
                    DrawImage ''resources/adobe_logo.png'' 185 115 70 35 True ''auto'',
                    RestoreState]\<rparr>])"
    by (simp add: scenario_image merge_page_def page_A4_def)
  with regle i s m g d show ?thesis
    by simp
qed

text \<open>
  Claim C3. A text annotation with rotation 0 whose string holds \<open>N\<close> line breaks is
  drawn as \<open>N + 1\<close> lines, the pieces of the string between the line breaks: line \<open>k\<close>
  (from 0) at the horizontal position \<open>x\<close> and the vertical position
  \<open>y - k * taille_police * 1.2\<close>. (The font must be known, the colour must parse and
  the opacity must lie within \<open>[0, 1]\<close>, otherwise the call raises and nothing is
  drawn.) These are the calls of the loop body for the annotation; and when \<^verbatim>\<open>generer\<close>
  succeeds with the annotation on a page of the document, the output has that page with
  an overlay of the size of the page that holds exactly this run of calls. The witness is
  the scenario of the text \<^verbatim>\<open>"Hello\nWorld"\<close> at \<open>(10, 700)\<close> in size 10 on one page
  of A4 size: \<^verbatim>\<open>Hello\<close> at 700 and \<^verbatim>\<open>World\<close> at 688, in the output of \<^verbatim>\<open>generer\<close>.
\<close>

theorem texte_sans_rotation_lignes:
  assumes "fonts w police" and "HexColor w couleur = Some c"
    and "0 \<le> opacite" and "opacite \<le> 1"
  shows "\<exists>dessin.
     dessin =
       [SaveState, SetFont police taille_police, SetFillColor c, SetFillAlpha opacite] @
       map (\<lambda>k. DrawString x (y - real k * taille_police * 1.2) (split_on newline texte ! k))
         [0..<Suc (count_list texte newline)] @
       [RestoreState]
     \<and> dessiner_element w
         (Elem_texte texte x y page taille_police police couleur 0 opacite) can =
       Inr (can @ dessin)
     \<and> (files w (fichier_pdf_entree (heap w self)) = Some (PdfFile pages) \<longrightarrow>
        Elem_texte texte x y page taille_police police couleur 0 opacite
          \<in> set (elements (heap w self)) \<longrightarrow>
        0 \<le> page \<longrightarrow> page < int (length pages) \<longrightarrow>
        snd (generer w self out) = Inr () \<longrightarrow>
        (\<exists>sortie avant apres.
           files (fst (generer w self out)) out = Some (PdfFile sortie) \<and>
           length sortie = length pages \<and>
           sortie ! nat page =
             merge_page (pages ! nat page)
               \<lparr>pagesize = (mediabox_width (pages ! nat page), mediabox_height (pages ! nat page)),
                ops = avant @ dessin @ apres\<rparr>))"
proof -
  let ?e = "Elem_texte texte x y page taille_police police couleur 0 opacite"
  let ?dessin = "[SaveState, SetFont police taille_police, SetFillColor c, SetFillAlpha opacite] @
       map (\<lambda>k. DrawString x (y - real k * taille_police * 1.2) (split_on newline texte ! k))
         [0..<Suc (count_list texte newline)] @
       [RestoreState]"
  have d: "dessiner_element w ?e can' = Inr (can' @ ?dessin)" for can'
    using dessiner_texte_sans_rotation [OF assms] .
  have "\<exists>sortie avant apres.
           files (fst (generer w self out)) out = Some (PdfFile sortie) \<and>
           length sortie = length pages \<and>
           sortie ! nat page =
             merge_page (pages ! nat page)
               \<lparr>pagesize = (mediabox_width (pages ! nat page), mediabox_height (pages ! nat page)),
                ops = avant @ ?dessin @ apres\<rparr>"
    if "files w (fichier_pdf_entree (heap w self)) = Some (PdfFile pages)"
      and "?e \<in> set (elements (heap w self))" and "0 \<le> page" and "page < int (length pages)"
      and "snd (generer w self out) = Inr ()"
    using generer_peint [OF that(1) that(5) that(2)] that(3,4) d [of "[]"] by auto
  with d [of can] show ?thesis
    by blast
qed

theorem texte_sans_rotation_lignes_witness:
  "fonts monde_hello ''Helvetica'' \<and> HexColor monde_hello ''#000000'' = Some 0
   \<and> (0::real) \<le> 1 \<and> (1::real) \<le> 1
   \<and> files monde_hello (fichier_pdf_entree (heap monde_hello 0)) = Some (PdfFile [page_A4])
   \<and> Elem_texte texte_hello 10 700 0 10 ''Helvetica'' ''#000000'' 0 1
       \<in> set (elements (heap monde_hello 0))
   \<and> (0::int) \<le> 0 \<and> (0::int) < int (length [page_A4])
   \<and> snd (generer monde_hello 0 ''out.pdf'') = Inr ()
   \<and> dessiner_element monde_hello
       (Elem_texte texte_hello 10 700 0 10 ''Helvetica'' ''#000000'' 0 1) [] =
       Inr [SaveState, SetFont ''Helvetica'' 10, SetFillColor 0, SetFillAlpha 1,
            DrawString 10 700 ''Hello'', DrawString 10 688 ''World'', RestoreState]
   \<and> files (fst (generer monde_hello 0 ''out.pdf'')) ''out.pdf'' =
       Some (PdfFile
         [merge_page page_A4
            \<lparr>pagesize = (mediabox_width page_A4, mediabox_height page_A4),
             ops = [SaveState, SetFont ''Helvetica'' 10, SetFillColor 0, SetFillAlpha 1,
                    DrawString 10 700 ''Hello'', DrawString 10 688 ''World'', RestoreState]\<rparr>])"
proof -
  have f: "fonts monde_hello ''Helvetica''" and c: "HexColor monde_hello ''#000000'' = Some 0"
    by (simp_all add: monde_hello_simps monde_exemple_def)
  have o: "(0::real) \<le> 1" "(1::real) \<le> 1"
    by simp_all
  have l: "split_on newline texte_hello = [''Hello'', ''World'']"
    by (simp add: texte_hello_def newline_def)
  have n: "count_list texte_hello newline = 1"
    by (simp add: texte_hello_def newline_def)
  have s: "files monde_hello (fichier_pdf_entree (heap monde_hello 0)) = Some (PdfFile [page_A4])"
    by (simp add: monde_hello_simps monde_exemple_simps)
  have m: "Elem_texte texte_hello 10 700 0 10 ''Helvetica'' ''#000000'' 0 1
       \<in> set (elements (heap monde_hello 0))"
    by (simp add: monde_hello_simps)
  have g: "snd (generer monde_hello 0 ''out.pdf'') = Inr ()"
    by (simp add: scenario_hello_world)
  from texte_sans_rotation_lignes [OF f c o, where texte = texte_hello and x = 10 and y = 700
      and page = 0 and taille_police = 10 and can = "[]" and self = 0 and pages = "[page_A4]"
      and out = "''out.pdf''"] s m g
  obtain sortie where
    d: "dessiner_element monde_hello
         (Elem_texte texte_hello 10 700 0 10 ''Helvetica'' ''#000000'' 0 1) [] =
       Inr [SaveState, SetFont ''Helvetica'' 10, SetFillColor 0, SetFillAlpha 1,
            DrawString 10 700 ''Hello'', DrawString 10 688 ''World'', RestoreState]"
    and "files (fst (generer monde_hello 0 ''out.pdf'')) ''out.pdf'' = Some (PdfFile sortie)"
    by (auto simp: l n upt_rec)
  have "files (fst (generer monde_hello 0 ''out.pdf'')) ''out.pdf'' =
       Some (PdfFile
         [merge_page page_A4
            \<lparr>pagesize = (mediabox_width page_A4, mediabox_height page_A4),
             ops = [SaveState, SetFont ''Helvetica'' 10, SetFillColor 0, SetFillAlpha 1,
                    DrawString 10 700 ''Hello'', DrawString 10 688 ''World'', RestoreState]\<rparr>])"
    by (simp add: scenario_hello_world merge_page_def page_A4_def)
  with f c s m g d show ?thesis
    by simp
qed

text \<open>
  Claim C4. A text annotation with a rotation other than 0 is drawn by moving the origin
  to \<open>(x, y)\<close>, rotating the frame by the angle, and then drawing line \<open>k\<close> at
  \<open>(0, - k * taille_police * 1.2)\<close>: between the \<^verbatim>\<open>saveState\<close> and the
  \<^verbatim>\<open>restoreState\<close> of the annotation the frame is rotated exactly once, and every line
  is drawn after it. (The font must be known, the colour must parse and the opacity must
  lie within \<open>[0, 1]\<close>, otherwise the call raises before the rotation.) These are the
  calls of the loop body for the annotation; and when \<^verbatim>\<open>generer\<close> succeeds with the
  annotation on a page of the document, the output has that page with an overlay of the
  size of the page that holds exactly this run of calls.
\<close>

theorem texte_avec_rotation_une_fois:
  assumes "fonts w police" and "HexColor w couleur = Some c"
    and "0 \<le> opacite" and "opacite \<le> 1" and "rotation \<noteq> 0"
  shows "\<exists>lignes dessin.
     lignes = map (\<lambda>k. DrawString 0 (- real k * taille_police * 1.2) (split_on newline texte ! k))
                [0..<Suc (count_list texte newline)]
     \<and> dessin =
       [SaveState, SetFont police taille_police, SetFillColor c, SetFillAlpha opacite] @
       [Translate x y, Rotate rotation] @ lignes @ [RestoreState]
     \<and> filter est_rotation dessin = [Rotate rotation]
     \<and> dessiner_element w
         (Elem_texte texte x y page taille_police police couleur rotation opacite) can =
       Inr (can @ dessin)
     \<and> (files w (fichier_pdf_entree (heap w self)) = Some (PdfFile pages) \<longrightarrow>
        Elem_texte texte x y page taille_police police couleur rotation opacite
          \<in> set (elements (heap w self)) \<longrightarrow>
        0 \<le> page \<longrightarrow> page < int (length pages) \<longrightarrow>
        snd (generer w self out) = Inr () \<longrightarrow>
        (\<exists>sortie avant apres.
           files (fst (generer w self out)) out = Some (PdfFile sortie) \<and>
           length sortie = length pages \<and>
           sortie ! nat page =
             merge_page (pages ! nat page)
               \<lparr>pagesize = (mediabox_width (pages ! nat page), mediabox_height (pages ! nat page)),
                ops = avant @ dessin @ apres\<rparr>))"
proof -
  let ?e = "Elem_texte texte x y page taille_police police couleur rotation opacite"
  let ?lignes = "map (\<lambda>k. DrawString 0 (- real k * taille_police * 1.2) (split_on newline texte ! k))
                [0..<Suc (count_list texte newline)]"
  let ?dessin = "[SaveState, SetFont police taille_police, SetFillColor c, SetFillAlpha opacite] @
       [Translate x y, Rotate rotation] @ ?lignes @ [RestoreState]"
  have d: "dessiner_element w ?e can' = Inr (can' @ ?dessin)" for can'
    using dessiner_texte_avec_rotation [OF assms] by simp
  have r: "filter est_rotation ?dessin = [Rotate rotation]"
    by (simp add: filter_est_rotation_DrawString del: upt_Suc)
  have "\<exists>sortie avant apres.
           files (fst (generer w self out)) out = Some (PdfFile sortie) \<and>
           length sortie = length pages \<and>
           sortie ! nat page =
             merge_page (pages ! nat page)
               \<lparr>pagesize = (mediabox_width (pages ! nat page), mediabox_height (pages ! nat page)),
                ops = avant @ ?dessin @ apres\<rparr>"
    if "files w (fichier_pdf_entree (heap w self)) = Some (PdfFile pages)"
      and "?e \<in> set (elements (heap w self))" and "0 \<le> page" and "page < int (length pages)"
      and "snd (generer w self out) = Inr ()"
    using generer_peint [OF that(1) that(5) that(2)] that(3,4) d [of "[]"] by auto
  with d [of can] r show ?thesis
    by blast
qed

theorem texte_avec_rotation_une_fois_witness:
  "fonts monde_rotation ''Helvetica'' \<and> HexColor monde_rotation ''#000000'' = Some 0
   \<and> (0::real) \<le> 1 \<and> (1::real) \<le> 1 \<and> (45::real) \<noteq> 0
   \<and> files monde_rotation (fichier_pdf_entree (heap monde_rotation 0)) = Some (PdfFile [page_A4])
   \<and> Elem_texte texte_hello 10 700 0 10 ''Helvetica'' ''#000000'' 45 1
       \<in> set (elements (heap monde_rotation 0))
   \<and> (0::int) \<le> 0 \<and> (0::int) < int (length [page_A4])
   \<and> snd (generer monde_rotation 0 ''out.pdf'') = Inr ()
   \<and> dessiner_element monde_rotation
       (Elem_texte texte_hello 10 700 0 10 ''Helvetica'' ''#000000'' 45 1) [] =
       Inr [SaveState, SetFont ''Helvetica'' 10, SetFillColor 0, SetFillAlpha 1,
            Translate 10 700, Rotate 45,
            DrawString 0 0 ''Hello'', DrawString 0 (- 12) ''World'', RestoreState]
   \<and> files (fst (generer monde_rotation 0 ''out.pdf'')) ''out.pdf'' =
       Some (PdfFile
         [merge_page page_A4
            \<lparr>pagesize = (mediabox_width page_A4, mediabox_height page_A4),
             ops = [SaveState, SetFont ''Helvetica'' 10, SetFillColor 0, SetFillAlpha 1,
                    Translate 10 700, Rotate 45,
                    DrawString 0 0 ''Hello'', DrawString 0 (- 12) ''World'', RestoreState]\<rparr>])"
proof -
  have w: "elements (heap monde_rotation 0) =
      [Elem_texte texte_hello 10 700 0 10 ''Helvetica'' ''#000000'' 45 1]"
    "fichier_pdf_entree (heap monde_rotation 0) = ''document.pdf''"
    "files monde_rotation = files monde_exemple"
    "fonts monde_rotation = fonts monde_exemple"
    "HexColor monde_rotation = HexColor monde_exemple"
    by (simp_all add: monde_rotation_def ajouter_texte_def monde_exemple_def EditeurPDF_init_def
        Let_def)
  have f: "fonts monde_rotation ''Helvetica''" and c: "HexColor monde_rotation ''#000000'' = Some 0"
    by (simp_all add: w monde_exemple_def)
  have o: "(0::real) \<le> 1" "(1::real) \<le> 1" "(45::real) \<noteq> 0"
    by simp_all
  have l: "split_on newline texte_hello = [''Hello'', ''World'']"
    by (simp add: texte_hello_def newline_def)
  have n: "count_list texte_hello newline = 1"
    by (simp add: texte_hello_def newline_def)
  have s: "files monde_rotation (fichier_pdf_entree (heap monde_rotation 0)) =
      Some (PdfFile [page_A4])"
    by (simp add: w monde_exemple_simps)
  have m: "Elem_texte texte_hello 10 700 0 10 ''Helvetica'' ''#000000'' 45 1
       \<in> set (elements (heap monde_rotation 0))"
    by (simp add: w)
  have g: "snd (generer monde_rotation 0 ''out.pdf'') = Inr ()"
    by (simp add: scenario_rotation)
  from texte_avec_rotation_une_fois [OF f c o, where texte = texte_hello and x = 10 and y = 700
      and page = 0 and taille_police = 10 and can = "[]" and self = 0 and pages = "[page_A4]"
      and out = "''out.pdf''"] s m g
  obtain sortie where
    d: "dessiner_element monde_rotation
         (Elem_texte texte_hello 10 700 0 10 ''Helvetica'' ''#000000'' 45 1) [] =
       Inr [SaveState, SetFont ''Helvetica'' 10, SetFillColor 0, SetFillAlpha 1,
            Translate 10 700, Rotate 45,
            DrawString 0 0 ''Hello'', DrawString 0 (- 12) ''World'', RestoreState]"
    and "files (fst (generer monde_rotation 0 ''out.pdf'')) ''out.pdf'' = Some (PdfFile sortie)"
    by (auto simp: l n upt_rec)
  have "files (fst (generer monde_rotation 0 ''out.pdf'')) ''out.pdf'' =
       Some (PdfFile
         [merge_page page_A4
            \<lparr>pagesize = (mediabox_width page_A4, mediabox_height page_A4),
             ops = [SaveState, SetFont ''Helvetica'' 10, SetFillColor 0, SetFillAlpha 1,
                    Translate 10 700, Rotate 45,
                    DrawString 0 0 ''Hello'', DrawString 0 (- 12) ''World'', RestoreState]\<rparr>])"
    by (simp add: scenario_rotation merge_page_def page_A4_def)
  with f c s m g d show ?thesis
    by simp
qed

text \<open>
  Claim C5. One call of \<^verbatim>\<open>signer_pdf_region\<close> with the anchor \<open>(x, y)\<close> appends exactly
  three annotations to the editor, in this order: the image at \<open>(x + 135, y - 35)\<close> of
  width 70 and height 70, the text at \<open>(x, y)\<close> in Helvetica-Bold of size 6, and the
  text at \<open>(x + 170, y + 5)\<close> in Helvetica-Bold of size 8. The witness is the anchor
  \<open>(50, 150)\<close>: the positions are \<open>(185, 115)\<close>, \<open>(50, 150)\<close> and \<open>(220, 155)\<close>.
\<close>

theorem signer_pdf_region_trois_elements:
  "elements (heap (fst (signer_pdf_region w r x y page largeur hauteur conserver_ratio chemin)) r) =
     elements (heap w r) @
       [Elem_image chemin (x + 135) (y - 35) page (Some 70) (Some 70) conserver_ratio 0 1,
        Elem_texte texte_lorem x y page 6 ''Helvetica-Bold'' ''#000000'' 0 1,
        Elem_texte (texte_signataire (date_du_jour w)) (x + 170) (y + 5) page 8
          ''Helvetica-Bold'' ''#000000'' 0 1]"
  by (simp add: signer_pdf_region_eq)

theorem signer_pdf_region_trois_elements_witness:
  "elements (heap (fst (signer_pdf_region monde_exemple 0 50 150 0 (Some 150) (Some 50) True
       ''resources/adobe_logo.png'')) 0) =
     [Elem_image ''resources/adobe_logo.png'' 185 115 0 (Some 70) (Some 70) True 0 1,
      Elem_texte texte_lorem 50 150 0 6 ''Helvetica-Bold'' ''#000000'' 0 1,
      Elem_texte (texte_signataire ''04/11/2026'') 220 155 0 8 ''Helvetica-Bold'' ''#000000'' 0 1]"
proof -
  have "elements (heap monde_exemple 0) = []" and "date_du_jour monde_exemple = ''04/11/2026''"
    by (simp_all add: monde_exemple_def EditeurPDF_init_def)
  then show ?thesis
    using signer_pdf_region_trois_elements [of monde_exemple 0 50 150 0 "Some 150" "Some 50" True
        "''resources/adobe_logo.png''"]
    by simp
qed

text \<open>
  Claim C6. An annotation whose page index is not the number of a page of the source
  document (negative, or at least the number of pages) is never painted and is no error:
  \<^verbatim>\<open>generer\<close> returns the same result and leaves the same files as with those
  annotations removed from the editor, whatever they are; and when every annotation is on
  such a page, the call succeeds and the output holds the pages of the source unchanged.
\<close>

theorem generer_page_sans_correspondance:
  assumes "files w (fichier_pdf_entree (heap w self)) = Some (PdfFile pages)"
  shows "snd (generer w self out) =
       snd (generer (avec_elements w self
              (elements_sur_page_existante (length pages) (elements (heap w self)))) self out)
    \<and> files (fst (generer w self out)) =
       files (fst (generer (avec_elements w self
                (elements_sur_page_existante (length pages) (elements (heap w self)))) self out))
    \<and> ((\<forall>e\<in>set (elements (heap w self)). elem_page e < 0 \<or> int (length pages) \<le> elem_page e) \<longrightarrow>
        writable w out \<longrightarrow>
        snd (generer w self out) = Inr () \<and>
        files (fst (generer w self out)) = (files w)(out \<mapsto> PdfFile pages))"
proof -
  let ?es = "elements (heap w self)"
  have r: "PdfReader w (fichier_pdf_entree (heap w self)) = Inr pages"
    using assms by (simp add: PdfReader_Inr)
  have "traiter_pages w (elements_par_page (elements_sur_page_existante (length pages) ?es)) 0 pages [] =
        traiter_pages w (elements_par_page ?es) 0 pages []"
    by (rule traiter_pages_cong) (simp add: elements_par_page_existante)
  note g = generer_avec_elements [OF r this]
  have "snd (generer w self out) = Inr () \<and>
        files (fst (generer w self out)) = (files w)(out \<mapsto> PdfFile pages)"
    if h: "\<forall>e\<in>set ?es. elem_page e < 0 \<or> int (length pages) \<le> elem_page e" and wr: "writable w out"
  proof -
    have "elements_par_page ?es (int (0 + k)) = None" if "k < length pages" for k
      using elements_par_page_absente [OF h that] by simp
    then have "traiter_pages w (elements_par_page ?es) 0 pages [] = Inr ([] @ pages)"
      by (rule traiter_pages_sans_element)
    then show ?thesis
      using generer_Inr [OF r _ wr, of pages] by simp
  qed
  with g show ?thesis
    by simp
qed

theorem generer_page_sans_correspondance_witness:
  "files monde_hors_page (fichier_pdf_entree (heap monde_hors_page 0)) = Some (PdfFile [page_A4])
   \<and> elements_sur_page_existante 1 (elements (heap monde_hors_page 0)) =
       [Elem_texte texte_hello 10 700 0 10 ''Helvetica'' ''#000000'' 0 1]
   \<and> snd (generer monde_hors_page 0 ''out.pdf'') = Inr ()
   \<and> files (fst (generer monde_hors_page 0 ''out.pdf'')) ''out.pdf'' =
       files (fst (generer monde_hello 0 ''out.pdf'')) ''out.pdf''
   \<and> files monde_tout_hors_page (fichier_pdf_entree (heap monde_tout_hors_page 0)) =
       Some (PdfFile [page_A4])
   \<and> map elem_page (elements (heap monde_tout_hors_page 0)) = [1, - 1]
   \<and> writable monde_tout_hors_page ''out.pdf''
   \<and> snd (generer monde_tout_hors_page 0 ''out.pdf'') = Inr ()
   \<and> files (fst (generer monde_tout_hors_page 0 ''out.pdf'')) ''out.pdf'' = Some (PdfFile [page_A4])"
proof -
  have a1: "files monde_hors_page (fichier_pdf_entree (heap monde_hors_page 0)) =
      Some (PdfFile [page_A4])"
    by (simp add: monde_hors_page_def ajouter_image_def ajouter_texte_def monde_hello_simps
        monde_exemple_simps Let_def)
  have a2: "elements_sur_page_existante (Suc 0) (elements (heap monde_hors_page 0)) =
      [Elem_texte texte_hello 10 700 0 10 ''Helvetica'' ''#000000'' 0 1]"
    by (simp add: monde_hors_page_def ajouter_image_def ajouter_texte_def monde_hello_simps
        elements_sur_page_existante_def Let_def)
  have a3: "avec_elements monde_hors_page 0
        [Elem_texte texte_hello 10 700 0 10 ''Helvetica'' ''#000000'' 0 1] =
      monde_hello\<lparr>stdout := stdout monde_hors_page\<rparr>"
    by (simp add: avec_elements_def monde_hors_page_def ajouter_image_def ajouter_texte_def
        monde_hello_def monde_exemple_def EditeurPDF_init_def Let_def)
  have a4: "snd (generer (monde_hello\<lparr>stdout := s\<rparr>) 0 ''out.pdf'') = Inr ()"
    "files (fst (generer (monde_hello\<lparr>stdout := s\<rparr>) 0 ''out.pdf'')) =
     files (fst (generer monde_hello 0 ''out.pdf''))" for s
    by (simp_all add: generer_def monde_hello_def monde_exemple_def ajouter_texte_def
      EditeurPDF_init_def PdfReader_def texte_hello_def elements_par_page_def ranger_def
      traiter_page_def merge_page_def page_A4_def newline_def Let_def)
  have b1: "files monde_tout_hors_page (fichier_pdf_entree (heap monde_tout_hors_page 0)) =
      Some (PdfFile [page_A4])"
    by (simp add: monde_tout_hors_page_def ajouter_image_def ajouter_texte_def monde_exemple_def
        EditeurPDF_init_def Let_def)
  have b2: "\<forall>e\<in>set (elements (heap monde_tout_hors_page 0)).
      elem_page e < 0 \<or> int (length [page_A4]) \<le> elem_page e"
    by (simp add: monde_tout_hors_page_def ajouter_image_def ajouter_texte_def monde_exemple_def
        EditeurPDF_init_def Let_def)
  have b3: "writable monde_tout_hors_page ''out.pdf''"
    by (simp add: monde_tout_hors_page_def ajouter_image_def ajouter_texte_def monde_exemple_def
        Let_def)
  have a: "snd (generer monde_hors_page 0 ''out.pdf'') = Inr ()
      \<and> files (fst (generer monde_hors_page 0 ''out.pdf'')) =
        files (fst (generer monde_hello 0 ''out.pdf''))"
    using generer_page_sans_correspondance [OF a1, of "''out.pdf''"]
    by (auto simp: a2 a3 a4)
  have b: "snd (generer monde_tout_hors_page 0 ''out.pdf'') = Inr ()
      \<and> files (fst (generer monde_tout_hors_page 0 ''out.pdf'')) =
        (files monde_tout_hors_page)(''out.pdf'' \<mapsto> PdfFile [page_A4])"
    using generer_page_sans_correspondance [OF b1, of "''out.pdf''"] b2 b3
    by blast
  have b4: "map elem_page (elements (heap monde_tout_hors_page 0)) = [1, - 1]"
    by (simp add: monde_tout_hors_page_def ajouter_image_def ajouter_texte_def monde_exemple_def
        EditeurPDF_init_def Let_def)
  show ?thesis
    using a a1 a2 b b1 b3 b4 by simp
qed

text \<open>
  Claim C7. A failure while the pages are processed aborts \<^verbatim>\<open>generer\<close> with the error
  and no output file is written: whenever the call returns an error the world is exactly
  as before; an annotation on a page of the document whose painting fails (unreadable
  image, unknown font, colour that does not parse) makes the call return an error with
  the world unchanged; and the files change only when every page has been processed, the
  one change being the output path, which then holds the processed pages.
\<close>

theorem generer_echec_rien_ecrit:
  "(snd (generer w self out) = Inl err \<longrightarrow> fst (generer w self out) = w)
   \<and> (files w (fichier_pdf_entree (heap w self)) = Some (PdfFile pages) \<longrightarrow>
      e \<in> set (elements (heap w self)) \<longrightarrow> 0 \<le> elem_page e \<longrightarrow> elem_page e < int (length pages) \<longrightarrow>
      dessiner_element w e [] = Inl err \<longrightarrow>
      (\<exists>err'. generer w self out = (w, Inl err')))
   \<and> (files (fst (generer w self out)) \<noteq> files w \<longrightarrow>
      (\<exists>pages sortie.
         files w (fichier_pdf_entree (heap w self)) = Some (PdfFile pages) \<and>
         traiter_pages w (elements_par_page (elements (heap w self))) 0 pages [] = Inr sortie \<and>
         files (fst (generer w self out)) = (files w)(out \<mapsto> PdfFile sortie)))"
proof (intro conjI impI)
  assume "snd (generer w self out) = Inl err"
  then show "fst (generer w self out) = w"
    using generer_cases [of w self out] by auto
next
  assume f: "files w (fichier_pdf_entree (heap w self)) = Some (PdfFile pages)"
    and e: "e \<in> set (elements (heap w self))"
    and p: "0 \<le> elem_page e" "elem_page e < int (length pages)"
    and d: "dessiner_element w e [] = Inl err"
  let ?epp = "elements_par_page (elements (heap w self))"
  obtain elems where g: "?epp (elem_page e) = Some elems" and m: "e \<in> set elems"
    using elements_par_page_mem [OF e] by blast
  obtain err1 where d1: "dessiner_elements w elems [] = Inl err1"
    using dessiner_elements_echec [OF m d] by blast
  define k where "k = nat (elem_page e)"
  with p have k: "k < length pages" "int k = elem_page e"
    by auto
  have "traiter_page w ?epp (0 + k) (pages ! k) = Inl err1"
    using g d1 k(2) by (simp add: traiter_page_def)
  then obtain err2 where "traiter_pages w ?epp 0 pages [] = Inl err2"
    using traiter_pages_echec [OF k(1)] by blast
  moreover have "PdfReader w (fichier_pdf_entree (heap w self)) = Inr pages"
    using f by (simp add: PdfReader_Inr)
  ultimately have "generer w self out = (w, Inl err2)"
    by (simp add: generer_def Let_def)
  then show "\<exists>err'. generer w self out = (w, Inl err')"
    by blast
next
  assume "files (fst (generer w self out)) \<noteq> files w"
  then show "\<exists>pages sortie.
         files w (fichier_pdf_entree (heap w self)) = Some (PdfFile pages) \<and>
         traiter_pages w (elements_par_page (elements (heap w self))) 0 pages [] = Inr sortie \<and>
         files (fst (generer w self out)) = (files w)(out \<mapsto> PdfFile sortie)"
    using generer_cases [of w self out] by (auto simp: PdfReader_Inr)
qed

theorem generer_echec_rien_ecrit_witness:
  "files monde_echec (fichier_pdf_entree (heap monde_echec 0)) = Some (PdfFile [page_A4])
   \<and> Elem_image ''missing.png'' 0 0 0 None None True 0 1 \<in> set (elements (heap monde_echec 0))
   \<and> dessiner_element monde_echec (Elem_image ''missing.png'' 0 0 0 None None True 0 1) [] =
       Inl (ImageResourceUnreadable ''missing.png'')
   \<and> snd (generer monde_echec 0 ''out.pdf'') = Inl (ImageResourceUnreadable ''missing.png'')
   \<and> fst (generer monde_echec 0 ''out.pdf'') = monde_echec
   \<and> files (fst (generer monde_hello 0 ''out.pdf'')) \<noteq> files monde_hello
   \<and> (\<exists>sortie.
        traiter_pages monde_hello (elements_par_page (elements (heap monde_hello 0))) 0 [page_A4] [] =
          Inr sortie
        \<and> files (fst (generer monde_hello 0 ''out.pdf'')) =
          (files monde_hello)(''out.pdf'' \<mapsto> PdfFile sortie))"
proof -
  let ?e = "Elem_image ''missing.png'' 0 0 0 None None True 0 1"
  have m: "elements (heap monde_echec 0) =
      [Elem_texte texte_hello 10 700 0 10 ''Helvetica'' ''#000000'' 0 1, ?e]"
    "fichier_pdf_entree (heap monde_echec 0) = ''document.pdf''"
    "files monde_echec = files monde_exemple"
    by (simp_all add: monde_echec_def ajouter_image_def monde_hello_simps Let_def)
  have c1: "files monde_echec (fichier_pdf_entree (heap monde_echec 0)) = Some (PdfFile [page_A4])"
    by (simp add: m monde_exemple_simps)
  have c2: "?e \<in> set (elements (heap monde_echec 0))"
    by (simp add: m)
  have c3: "dessiner_element monde_echec ?e [] = Inl (ImageResourceUnreadable ''missing.png'')"
    by (simp add: Image_open_size_def m monde_exemple_simps)
  have c4: "snd (generer monde_echec 0 ''out.pdf'') = Inl (ImageResourceUnreadable ''missing.png'')"
    by (simp add: generer_def monde_echec_def ajouter_image_def monde_hello_def monde_exemple_def
      ajouter_texte_def EditeurPDF_init_def PdfReader_def Image_open_size_def texte_hello_def
      elements_par_page_def ranger_def traiter_page_def merge_page_def page_A4_def newline_def
      Let_def)
  have d1: "files (fst (generer monde_hello 0 ''out.pdf'')) \<noteq> files monde_hello"
  proof
    assume "files (fst (generer monde_hello 0 ''out.pdf'')) = files monde_hello"
    then have "files (fst (generer monde_hello 0 ''out.pdf'')) ''out.pdf'' =
        files monde_hello ''out.pdf''"
      by simp
    then show False
      by (simp add: scenario_hello_world monde_hello_simps monde_exemple_def)
  qed
  have d2: "files monde_hello (fichier_pdf_entree (heap monde_hello 0)) = Some (PdfFile pages) \<longleftrightarrow>
      pages = [page_A4]" for pages
    by (auto simp: monde_hello_simps monde_exemple_simps)
  show ?thesis
    using generer_echec_rien_ecrit [of monde_echec 0 "''out.pdf''"
        "ImageResourceUnreadable ''missing.png''" "[page_A4]" ?e]
      generer_echec_rien_ecrit [of monde_hello 0 "''out.pdf''"]
      c1 c2 c3 c4 d1 d2
    by auto
qed

text \<open>
  Claim C8. \<^verbatim>\<open>generer\<close> only reads the editor: after the call every editor, hence the
  list of pending annotations, is what it was before. And a second call after the first,
  with the source document and the images of the annotations unchanged by the first call
  (it writes its output path only) and both output paths writable, returns the same
  result and writes the same content as the first.
\<close>

theorem generer_store_lecture_seule:
  "heap (fst (generer w self out)) = heap w
   \<and> (files (fst (generer w self out)) (fichier_pdf_entree (heap w self)) =
        files w (fichier_pdf_entree (heap w self)) \<longrightarrow>
      (\<forall>c\<in>set (images_lues (elements (heap w self))). files (fst (generer w self out)) c = files w c) \<longrightarrow>
      writable w out \<longrightarrow> writable w out' \<longrightarrow>
      snd (generer (fst (generer w self out)) self out') = snd (generer w self out)
      \<and> (snd (generer w self out) = Inr () \<longrightarrow>
         files (fst (generer (fst (generer w self out)) self out')) out' =
         files (fst (generer w self out)) out))"
proof -
  define w1 where "w1 = fst (generer w self out)"
  let ?es = "elements (heap w self)"
  let ?src = "fichier_pdf_entree (heap w self)"
  have h: "heap w1 = heap w"
    and f: "fonts w1 = fonts w" "HexColor w1 = HexColor w" "writable w1 = writable w"
    unfolding w1_def using generer_cases [of w self out] by auto
  have second: "snd (generer w1 self out') = snd (generer w self out)
      \<and> (snd (generer w self out) = Inr () \<longrightarrow> files (fst (generer w1 self out')) out' = files w1 out)"
    if src: "files w1 ?src = files w ?src"
      and img: "\<forall>c\<in>set (images_lues ?es). files w1 c = files w c"
      and wr: "writable w out" "writable w out'"
  proof -
    have r: "PdfReader w1 ?src = PdfReader w ?src"
      using src by (simp add: PdfReader_def)
    have t: "traiter_pages w1 (elements_par_page ?es) 0 pages [] =
             traiter_pages w (elements_par_page ?es) 0 pages []" for pages
      using img by (intro traiter_pages_elements_monde f) blast
    show ?thesis
    proof (cases "PdfReader w ?src")
      case (Inl e)
      then show ?thesis
        using r by (simp add: generer_def Let_def h)
    next
      case (Inr pages)
      note lu = this
      show ?thesis
      proof (cases "traiter_pages w (elements_par_page ?es) 0 pages []")
        case (Inl e)
        then show ?thesis
          using r lu t [of pages] by (simp add: generer_def Let_def h)
      next
        case (Inr sortie)
        have 1: "generer w self out =
            (w\<lparr>files := (files w)(out \<mapsto> PdfFile sortie),
               stdout := stdout w @ [Pdf_genere out, Total_elements (length ?es)]\<rparr>, Inr ())"
          using generer_Inr [OF lu Inr wr(1)] .
        have "PdfReader w1 (fichier_pdf_entree (heap w1 self)) = Inr pages"
          and "traiter_pages w1 (elements_par_page (elements (heap w1 self))) 0 pages [] = Inr sortie"
          and "writable w1 out'"
          using r lu t [of pages] Inr wr(2) by (simp_all add: h f)
        from generer_Inr [OF this] have 2: "generer w1 self out' =
            (w1\<lparr>files := (files w1)(out' \<mapsto> PdfFile sortie),
                stdout := stdout w1 @ [Pdf_genere out', Total_elements (length ?es)]\<rparr>, Inr ())"
          by (simp add: h)
        have "files w1 out = Some (PdfFile sortie)"
          unfolding w1_def by (simp add: 1)
        then show ?thesis
          by (simp add: 1 2)
      qed
    qed
  qed
  show ?thesis
    using h second unfolding w1_def by blast
qed

theorem generer_store_lecture_seule_witness:
  "files (fst (generer monde_signe 0 ''out.pdf'')) (fichier_pdf_entree (heap monde_signe 0)) =
     files monde_signe (fichier_pdf_entree (heap monde_signe 0))
   \<and> images_lues (elements (heap monde_signe 0)) = [''resources/adobe_logo.png'']
   \<and> files (fst (generer monde_signe 0 ''out.pdf'')) ''resources/adobe_logo.png'' =
     files monde_signe ''resources/adobe_logo.png''
   \<and> writable monde_signe ''out.pdf'' \<and> writable monde_signe ''out2.pdf''
   \<and> elements (heap (fst (generer monde_signe 0 ''out.pdf'')) 0) = elements (heap monde_signe 0)
   \<and> snd (generer monde_signe 0 ''out.pdf'') = Inr ()
   \<and> snd (generer (fst (generer monde_signe 0 ''out.pdf'')) 0 ''out2.pdf'') = Inr ()
   \<and> files (fst (generer (fst (generer monde_signe 0 ''out.pdf'')) 0 ''out2.pdf'')) ''out2.pdf'' =
     files (fst (generer monde_signe 0 ''out.pdf'')) ''out.pdf''"
proof -
  have 1: "files (fst (generer monde_signe 0 ''out.pdf'')) (fichier_pdf_entree (heap monde_signe 0)) =
     files monde_signe (fichier_pdf_entree (heap monde_signe 0))"
    by (simp add: generer_files_autres monde_signe_simps)
  have 2: "\<forall>c\<in>set (images_lues (elements (heap monde_signe 0))).
        files (fst (generer monde_signe 0 ''out.pdf'')) c = files monde_signe c"
    by (simp add: generer_files_autres monde_signe_simps)
  have 3: "writable monde_signe ''out.pdf''" "writable monde_signe ''out2.pdf''"
    by (simp_all add: monde_signe_simps monde_exemple_simps)
  note t = generer_store_lecture_seule [of monde_signe 0 "''out.pdf''" "''out2.pdf''"]
  from t have h: "heap (fst (generer monde_signe 0 ''out.pdf'')) = heap monde_signe"
    by blast
  from t 1 2 3 have
    "snd (generer (fst (generer monde_signe 0 ''out.pdf'')) 0 ''out2.pdf'') =
       snd (generer monde_signe 0 ''out.pdf'')
     \<and> (snd (generer monde_signe 0 ''out.pdf'') = Inr () \<longrightarrow>
        files (fst (generer (fst (generer monde_signe 0 ''out.pdf'')) 0 ''out2.pdf'')) ''out2.pdf'' =
        files (fst (generer monde_signe 0 ''out.pdf'')) ''out.pdf'')"
    by blast
  moreover have "images_lues (elements (heap monde_signe 0)) = [''resources/adobe_logo.png'']"
    by (simp add: monde_signe_simps)
  ultimately show ?thesis
    using 1 2 3 h by (simp add: generer_monde_signe)
qed

text \<open>
  Claim C9 as stated, that the editor has an operation \<^verbatim>\<open>pending_count()\<close>, does not
  hold of the code: \<^verbatim>\<open>EditeurPDF\<close> has no attribute of that name, and asking for it
  raises \<^verbatim>\<open>AttributeError\<close>.
\<close>

theorem pending_count_absent: "EditeurPDF_getattr ''pending_count'' = Inl (AttributeError ''pending_count'')"
  by (simp add: EditeurPDF_getattr_def EditeurPDF_attributs_def)

text \<open>
  Claim C9, amended. The number of pending annotations is the length of the list
  \<^verbatim>\<open>elements\<close> of the editor: 0 for a new editor and after \<^verbatim>\<open>reinitialiser\<close>, one
  more after each \<^verbatim>\<open>ajouter_texte\<close> and \<^verbatim>\<open>ajouter_image\<close>; and that length is the
  count in the last line that a successful \<^verbatim>\<open>generer\<close> prints.
\<close>

theorem total_elements_du_resume:
  "(snd (generer w self out) = Inr () \<longrightarrow>
      stdout (fst (generer w self out)) =
        stdout w @ [Pdf_genere out, Total_elements (length (elements (heap w self)))])
   \<and> length (elements (EditeurPDF_init f)) = 0
   \<and> length (elements (heap (reinitialiser w self) self)) = 0
   \<and> length (elements (heap
        (ajouter_texte w self texte x y page taille_police police couleur rotation opacite) self)) =
      Suc (length (elements (heap w self)))
   \<and> length (elements (heap
        (ajouter_image w self chemin_image x y page largeur hauteur conserver_ratio rotation opacite)
        self)) =
      Suc (length (elements (heap w self)))"
proof -
  have "snd (generer w self out) = Inr () \<longrightarrow>
      stdout (fst (generer w self out)) =
        stdout w @ [Pdf_genere out, Total_elements (length (elements (heap w self)))]"
    using generer_cases [of w self out] by auto
  then show ?thesis
    by (simp add: EditeurPDF_init_def reinitialiser_def ajouter_texte_def ajouter_image_def Let_def)
qed

theorem total_elements_du_resume_witness:
  "snd (generer monde_hello 0 ''out.pdf'') = Inr ()
   \<and> stdout (fst (generer monde_hello 0 ''out.pdf'')) =
       [Texte_ajoute texte_hello 0 10 700, Pdf_genere ''out.pdf'', Total_elements 1]
   \<and> length (elements (heap (reinitialiser monde_hello 0) 0)) = 0
   \<and> length (elements (heap monde_signe 0)) = 3"
proof -
  have 1: "snd (generer monde_hello 0 ''out.pdf'') = Inr ()"
    by (simp add: scenario_hello_world)
  have 2: "stdout monde_hello = [Texte_ajoute texte_hello 0 10 700]"
    by (simp add: monde_hello_def ajouter_texte_def monde_exemple_def Let_def)
  show ?thesis
    using total_elements_du_resume [of monde_hello 0 "''out.pdf''"] 1 2
    by (simp add: monde_hello_simps monde_signe_simps)
qed

text \<open>
  Claim C10. \<^verbatim>\<open>signer_pdf_region\<close> does not use its arguments \<open>largeur\<close> and
  \<open>hauteur\<close>: the call does the same with any other values for them, the image
  annotation it queues has width 70 and height 70, and the value returned is the editor
  reference it was given. The witness is the call of the example, with 150 and 50.
\<close>

theorem signer_pdf_region_ignore_largeur_hauteur:
  "signer_pdf_region w r x y page largeur hauteur conserver_ratio chemin =
     signer_pdf_region w r x y page largeur' hauteur' conserver_ratio chemin
   \<and> elements (heap (fst (signer_pdf_region w r x y page largeur hauteur conserver_ratio chemin)) r)
       ! length (elements (heap w r)) =
     Elem_image chemin (x + 135) (y - 35) page (Some 70) (Some 70) conserver_ratio 0 1
   \<and> snd (signer_pdf_region w r x y page largeur hauteur conserver_ratio chemin) = r"
  by (simp add: signer_pdf_region_eq)

theorem signer_pdf_region_ignore_largeur_hauteur_witness:
  "signer_pdf_region monde_exemple 0 50 150 0 (Some 150) (Some 50) True ''resources/adobe_logo.png'' =
     signer_pdf_region monde_exemple 0 50 150 0 None None True ''resources/adobe_logo.png''
   \<and> elements (heap (fst (signer_pdf_region monde_exemple 0 50 150 0 (Some 150) (Some 50) True
         ''resources/adobe_logo.png'')) 0) ! 0 =
     Elem_image ''resources/adobe_logo.png'' 185 115 0 (Some 70) (Some 70) True 0 1
   \<and> snd (signer_pdf_region monde_exemple 0 50 150 0 (Some 150) (Some 50) True
         ''resources/adobe_logo.png'') = 0"
proof -
  have vide: "elements (heap monde_exemple 0) = []"
    by (simp add: monde_exemple_def EditeurPDF_init_def)
  have "(50::real) + 135 = 185" and "(150::real) - 35 = 115"
    by simp_all
  with vide show ?thesis
    using signer_pdf_region_ignore_largeur_hauteur [of monde_exemple 0 50 150 0 "Some 150"
        "Some 50" True "''resources/adobe_logo.png''" None None]
    by auto
qed

end
